theory Spec2Isabelle
  imports Complex_Main "HOL-Library.Word"
begin

unbundle bit_operations_syntax

section \<open>Transaction engine (src/lib/wallet/transaction.ts)\<close>

text \<open>
  Amounts are JavaScript numbers holding integers of the smallest unit; they are modelled
  as \<open>int\<close>. The fee rate (satoshis per vbyte) may be fractional (a custom rate is read
  with \<open>parseFloat\<close>), so it is a \<open>rat\<close>, and \<open>Math.ceil(x * feeRate)\<close> is the ceiling
  of the exact product.
\<close>

record utxo =
  txid :: string
  vout :: nat
  value' :: int

datatype network = mainnet | testnet

record EstimateParams =
  amountSats :: int
  feeRate :: rat
  utxos :: "utxo list"
  includeFee :: bool

record 'k SpendTarget = EstimateParams +
  toAddress :: string
  fromAddress :: string
  keyPair :: 'k
  networkType :: network

record FeeEstimate =
  estimatedFee :: int
  actualAmountSats :: int
  totalNeeded :: int

definition estimateVBytes :: "int \<Rightarrow> int \<Rightarrow> int" where
  "estimateVBytes inputCount outputCount =
     \<lceil>(of_int (10 + inputCount * 68 + outputCount * 31) :: rat)\<rceil>"

definition feeFor :: "int \<Rightarrow> rat \<Rightarrow> int" where
  \<comment> \<open>\<open>Math.ceil(estimatedVSize * feeRate)\<close>\<close>
  "feeFor estimatedVSize rate = \<lceil>of_int estimatedVSize * rate\<rceil>"

definition outputCountFor :: "bool \<Rightarrow> int" where
  \<comment> \<open>\<open>includeFee ? 1 : 2\<close>\<close>
  "outputCountFor incl = (if incl then 1 else 2)"

text \<open>
  The \<open>for (const utxo of utxos)\<close> loop of \<open>estimateFee\<close>. The loop state is
  \<open>(totalIn, inputCount, estimatedFee)\<close>; the value of \<open>estimatedFee\<close> after the loop is
  returned.
\<close>

fun estimateFee_loop :: "int \<Rightarrow> rat \<Rightarrow> bool \<Rightarrow> utxo list \<Rightarrow> int \<Rightarrow> int \<Rightarrow> int \<Rightarrow> int" where
  "estimateFee_loop amt rate incl [] totalIn inputCount fee = fee"
| "estimateFee_loop amt rate incl (u # us) totalIn inputCount fee =
     (let totalIn' = totalIn + value' u;
          inputCount' = inputCount + 1;
          estimatedVSize = estimateVBytes inputCount' (outputCountFor incl);
          fee' = feeFor estimatedVSize rate;
          totalNeeded' = (if incl then amt else amt + fee')
      in if totalIn' \<ge> totalNeeded' then fee'
         else estimateFee_loop amt rate incl us totalIn' inputCount' fee')"

definition estimateFee :: "'a EstimateParams_scheme \<Rightarrow> FeeEstimate" where
  "estimateFee params =
     (if utxos params = [] \<or> amountSats params \<le> 0
      then \<lparr>estimatedFee = 0, actualAmountSats = 0, totalNeeded = 0\<rparr>
      else
        let fee = estimateFee_loop (amountSats params) (feeRate params) (includeFee params)
                    (utxos params) 0 0 0
        in \<lparr>estimatedFee = fee,
            actualAmountSats =
              (if includeFee params then max 0 (amountSats params - fee) else amountSats params),
            totalNeeded =
              (if includeFee params then amountSats params else amountSats params + fee)\<rparr>)"

text \<open>
  \<open>buildAndSignTx\<close>. The calls into bitcoinjs-lib (not part of this repository) are
  parameters: \<open>p2wpkh_output\<close> is \<open>payments.p2wpkh(...).output\<close> (\<open>None\<close> when it is
  undefined), \<open>addInputs_ok\<close> says whether every \<open>psbt.addInput\<close> call returns, and
  \<open>signAndSerialize\<close> stands for \<open>addOutput\<close>, \<open>signInput\<close>, \<open>finalizeAllInputs\<close>,
  \<open>extractTransaction\<close> and \<open>toHex\<close> (\<open>None\<close> when one of them throws).
\<close>

record 'k bitcoinjs =
  p2wpkh_output :: "'k \<Rightarrow> network \<Rightarrow> string option"
  addInputs_ok :: "string \<Rightarrow> utxo list \<Rightarrow> bool"
  signAndSerialize :: "'k \<Rightarrow> utxo list \<Rightarrow> (string \<times> int) list \<Rightarrow> string option"

datatype tx_error =
    InvalidAmount          \<comment> \<open>'Amount must be positive'\<close>
  | NoFunds                \<comment> \<open>'No funds available'\<close>
  | NoScript               \<comment> \<open>'Unable to derive script for signing'\<close>
  | AmountBelowFee         \<comment> \<open>'Amount is too small to cover the transaction fee'\<close>
  | InsufficientBalance    \<comment> \<open>'Insufficient balance for amount + fee'\<close>
  | LibraryError           \<comment> \<open>an exception thrown inside bitcoinjs-lib\<close>

text \<open>
  The result keeps, next to the returned \<open>hex\<close> and \<open>fee\<close>, the inputs and outputs
  that were added to the PSBT, so that claims about the produced transaction can be stated.
\<close>

record BuiltTx =
  hex :: string
  fee :: int
  tx_inputs :: "utxo list"
  tx_outputs :: "(string \<times> int) list"

text \<open>
  The selection loop of \<open>buildAndSignTx\<close>; the loop state is
  \<open>(selectedUtxos, totalIn)\<close> (\<open>estimatedFee\<close> is recomputed after the loop).
\<close>

fun select_loop :: "int \<Rightarrow> rat \<Rightarrow> bool \<Rightarrow> utxo list \<Rightarrow> utxo list \<Rightarrow> int \<Rightarrow> utxo list \<times> int" where
  "select_loop amt rate incl [] selectedUtxos totalIn = (selectedUtxos, totalIn)"
| "select_loop amt rate incl (u # us) selectedUtxos totalIn =
     (let selectedUtxos' = selectedUtxos @ [u];
          totalIn' = totalIn + value' u;
          estimatedVSize = estimateVBytes (int (length selectedUtxos')) (outputCountFor incl);
          estimatedFee' = feeFor estimatedVSize rate;
          recalculatedNeeded = (if incl then amt else amt + estimatedFee')
      in if totalIn' \<ge> recalculatedNeeded then (selectedUtxos', totalIn')
         else select_loop amt rate incl us selectedUtxos' totalIn')"

definition selectedUtxos :: "'a EstimateParams_scheme \<Rightarrow> utxo list" where
  "selectedUtxos p =
     fst (select_loop (amountSats p) (feeRate p) (includeFee p) (utxos p) [] 0)"

definition totalIn :: "'a EstimateParams_scheme \<Rightarrow> int" where
  "totalIn p = snd (select_loop (amountSats p) (feeRate p) (includeFee p) (utxos p) [] 0)"

definition finalFee :: "'a EstimateParams_scheme \<Rightarrow> int" where
  \<comment> \<open>the "final fee calculation" after the loop\<close>
  "finalFee p =
     feeFor (estimateVBytes (int (length (selectedUtxos p))) (outputCountFor (includeFee p)))
       (feeRate p)"

definition actualAmount :: "'a EstimateParams_scheme \<Rightarrow> int" where
  "actualAmount p =
     (if includeFee p then max 0 (amountSats p - finalFee p) else amountSats p)"

definition change :: "'a EstimateParams_scheme \<Rightarrow> int" where
  "change p = totalIn p - actualAmount p - finalFee p"

definition sum_outs :: "(string \<times> int) list \<Rightarrow> int" where
  \<comment> \<open>\<open>outs.reduce((sum, o) => sum + o.value, 0)\<close>\<close>
  "sum_outs outs = foldl (\<lambda>s out. s + snd out) 0 outs"

definition buildAndSignTx :: "'k bitcoinjs \<Rightarrow> ('k, 'a) SpendTarget_scheme \<Rightarrow> tx_error + BuiltTx" where
  "buildAndSignTx lib p =
     (if amountSats p \<le> 0 then Inl InvalidAmount
      else if utxos p = [] then Inl NoFunds
      else (case p2wpkh_output lib (keyPair p) (networkType p) of
        None \<Rightarrow> Inl NoScript
      | Some script \<Rightarrow>
          (if actualAmount p \<le> 0 \<and> includeFee p then Inl AmountBelowFee
           else if \<not> addInputs_ok lib script (selectedUtxos p) then Inl LibraryError
           else if change p < 0 then Inl InsufficientBalance
           else
             (let outs = [(toAddress p, actualAmount p)] @
                        (if change p > 546 then [(fromAddress p, change p)] else [])
              in (case signAndSerialize lib (keyPair p) (selectedUtxos p) outs of
                    None \<Rightarrow> Inl LibraryError
                  | Some h \<Rightarrow>
                      Inr \<lparr>hex = h, fee = totalIn p - sum_outs outs,
                           tx_inputs = selectedUtxos p, tx_outputs = outs\<rparr>)))))"


section \<open>Codec (src/lib/utils.ts)\<close>

type_synonym byte = "8 word"

text \<open>
  \<open>Buffer.from(s, 'hex')\<close> of Node.js: pairs of hex digits are decoded until the first
  pair that is not hexadecimal; a trailing single digit is dropped.
\<close>

definition hexval :: "char \<Rightarrow> nat option" where
  \<comment> \<open>the value of a hexadecimal digit, of either case\<close>
  "hexval c =
     map_of (zip ''0123456789abcdefABCDEF''
               [0, 1, 2, 3, 4, 5, 6, 7, 8, 9, 10, 11, 12, 13, 14, 15, 10, 11, 12, 13, 14, 15]) c"

fun from_hex :: "string \<Rightarrow> byte list" where
  "from_hex (a # b # rest) =
     (case hexval a of
        None \<Rightarrow> []
      | Some x \<Rightarrow> (case hexval b of
                    None \<Rightarrow> []
                  | Some y \<Rightarrow> word_of_nat (16 * x + y) # from_hex rest))"
| "from_hex _ = []"

definition isHex :: "string \<Rightarrow> bool" where
  \<comment> \<open>every character is a hexadecimal digit\<close>
  "isHex s = list_all (\<lambda>c. case hexval c of None \<Rightarrow> False | Some v \<Rightarrow> True) s"

text \<open>\<open>buf.toString('hex')\<close>: two lower-case digits per byte.\<close>

definition hexdigit :: "nat \<Rightarrow> char" where
  \<comment> \<open>the digit of a value below 16\<close>
  "hexdigit n = ''0123456789abcdef'' ! n"

definition to_hex :: "byte list \<Rightarrow> string" where
  "to_hex bs = concat (map (\<lambda>b. [hexdigit (unat b div 16), hexdigit (unat b mod 16)]) bs)"

definition slice :: "'a list \<Rightarrow> nat \<Rightarrow> nat \<Rightarrow> 'a list" where
  \<comment> \<open>\<open>buf.slice(start, end)\<close> and \<open>str.substring(start, end)\<close> for \<open>start \<le> end\<close>\<close>
  "slice xs start end' = take (end' - start) (drop start xs)"

definition readUInt16LE :: "byte list \<Rightarrow> nat \<Rightarrow> nat" where
  "readUInt16LE buf off = unat (buf ! off) + 256 * unat (buf ! (off + 1))"

definition readUInt32LE :: "byte list \<Rightarrow> nat \<Rightarrow> nat" where
  "readUInt32LE buf off =
     unat (buf ! off) + 256 * unat (buf ! (off + 1)) + 65536 * unat (buf ! (off + 2))
       + 16777216 * unat (buf ! (off + 3))"

text \<open>
  Double SHA-256, reversed, as hex. SHA-256 is Node's \<open>crypto.createHash('sha256')\<close>; it
  is a parameter of every function that hashes.
\<close>

definition hash256_hex :: "(byte list \<Rightarrow> byte list) \<Rightarrow> byte list \<Rightarrow> string" where
  "hash256_hex sha256 bs = to_hex (rev (sha256 (sha256 bs)))"

datatype header_error =
    InvalidHeaderHex          \<comment> \<open>'Invalid block header hex string'\<close>
  | InvalidHeaderLength nat   \<comment> \<open>'Invalid header length: expected 80 bytes, got n'\<close>

record BlockHeader =
  hash :: string
  version :: nat
  prevHash :: string
  merkleRoot :: string
  timestamp :: nat
  bits :: nat
  nonce :: nat

definition parseBlockHeader :: "(byte list \<Rightarrow> byte list) \<Rightarrow> string \<Rightarrow> header_error + BlockHeader" where
  "parseBlockHeader sha256 headerHex =
     (if headerHex = [] \<or> length headerHex < 160 then Inl InvalidHeaderHex
      else
        let header = from_hex headerHex
        in if length header \<noteq> 80 then Inl (InvalidHeaderLength (length header))
           else Inr \<lparr>hash = hash256_hex sha256 header,
                     version = readUInt32LE header 0,
                     prevHash = to_hex (rev (slice header 4 36)),
                     merkleRoot = to_hex (rev (slice header 36 68)),
                     timestamp = readUInt32LE header 68,
                     bits = readUInt32LE header 72,
                     nonce = readUInt32LE header 76\<rparr>)"

text \<open>
  \<open>calculateDifficultyFromBits\<close>. The argument is a non-negative integer; \<open>>>>\<close> and
  \<open>&\<close> work on its low 32 bits. For the inputs considered below every intermediate
  value is a product of a 24-bit integer and a power of two, which a double holds
  exactly, so the arithmetic is written over the reals.
\<close>

definition calculateDifficultyFromBits :: "nat \<Rightarrow> real" where
  "calculateDifficultyFromBits bits' =
     (let w = (word_of_nat bits' :: 32 word);
          exponent = unat (drop_bit 24 w);
          mantissa = w AND 0x007fffff;
          maxTarget = (0xffff0000 :: real) * 256 ^ (0x1d - 3);
          target = (if exponent \<le> 3
                    then real (unat (drop_bit (8 * (3 - exponent)) mantissa))
                    else real (unat mantissa) * 256 ^ (exponent - 3))
      in if target = 0 then 0 else maxTarget / target)"

datatype exn = BufferOverflow   \<comment> \<open>'Buffer overflow reading varint'\<close>

definition readVarint :: "byte list \<Rightarrow> nat \<Rightarrow> exn + (nat \<times> nat)" where
  \<comment> \<open>returns \<open>(value, size)\<close>\<close>
  "readVarint buffer offset =
     (if offset \<ge> length buffer then Inl BufferOverflow
      else
        let firstByte = unat (buffer ! offset)
        in if firstByte < 0xfd then Inr (firstByte, 1)
           else if firstByte = 0xfd then
             (if offset + 3 > length buffer then Inl BufferOverflow
              else Inr (readUInt16LE buffer (offset + 1), 3))
           else if firstByte = 0xfe then
             (if offset + 5 > length buffer then Inl BufferOverflow
              else Inr (readUInt32LE buffer (offset + 1), 5))
           else
             (if offset + 9 > length buffer then Inl BufferOverflow
              else Inr (readUInt32LE buffer (offset + 1), 9)))"

text \<open>
  The loop that skips the inputs of one transaction: \<open>n\<close> is the input count, \<open>j\<close> the
  loop counter. The result is the offset when the loop is left (by its condition or by
  \<open>break\<close>), or the exception thrown by \<open>readVarint\<close>.
\<close>

function skipInputs :: "byte list \<Rightarrow> nat \<Rightarrow> nat \<Rightarrow> nat \<Rightarrow> exn + nat" where
  "skipInputs buf n j offset =
     (if j < n \<and> offset < length buf then
        (if offset + 36 > length buf then Inr offset
         else (case readVarint buf (offset + 36) of
                 Inl e \<Rightarrow> Inl e
               | Inr (scriptLen, sz) \<Rightarrow>
                   (if offset + 36 + sz + scriptLen > length buf then Inr (offset + 36 + sz)
                    else if offset + 36 + sz + scriptLen + 4 > length buf
                      then Inr (offset + 36 + sz + scriptLen)
                    else skipInputs buf n (j + 1) (offset + 36 + sz + scriptLen + 4))))
      else Inr offset)"
  by pat_completeness auto
termination
  by (relation "measure (\<lambda>(buf, n, j, offset). n - j)") auto

function skipOutputs :: "byte list \<Rightarrow> nat \<Rightarrow> nat \<Rightarrow> nat \<Rightarrow> exn + nat" where
  "skipOutputs buf n j offset =
     (if j < n \<and> offset < length buf then
        (if offset + 8 > length buf then Inr offset
         else (case readVarint buf (offset + 8) of
                 Inl e \<Rightarrow> Inl e
               | Inr (scriptLen, sz) \<Rightarrow>
                   (if offset + 8 + sz + scriptLen > length buf then Inr (offset + 8 + sz)
                    else skipOutputs buf n (j + 1) (offset + 8 + sz + scriptLen))))
      else Inr offset)"
  by pat_completeness auto
termination
  by (relation "measure (\<lambda>(buf, n, j, offset). n - j)") auto

text \<open>
  One pass through the body of the transaction loop, from \<open>txStartOffset = offset\<close>. The
  body ends with \<open>Break\<close> (a \<open>break\<close> of the outer loop), with \<open>Next offset'\<close> (the end
  of the body, the transaction spanning \<open>[offset, offset')\<close>), or with an exception.
\<close>

datatype 'a step = Break | Next 'a

definition tx_body :: "byte list \<Rightarrow> nat \<Rightarrow> exn + nat step" where
  "tx_body buf offset =
     (if offset + 4 > length buf then Inr Break
      else (case readVarint buf (offset + 4) of
        Inl e \<Rightarrow> Inl e
      | Inr (inputCount, size1) \<Rightarrow>
         (case skipInputs buf inputCount 0 (offset + 4 + size1) of
            Inl e \<Rightarrow> Inl e
          | Inr offset2 \<Rightarrow>
             (if offset2 \<ge> length buf then Inr Break
              else (case readVarint buf offset2 of
                 Inl e \<Rightarrow> Inl e
               | Inr (outputCount, size2) \<Rightarrow>
                  (case skipOutputs buf outputCount 0 (offset2 + size2) of
                     Inl e \<Rightarrow> Inl e
                   | Inr offset3 \<Rightarrow>
                      (if offset3 + 4 > length buf then Inr Break
                       else Inr (Next (offset3 + 4)))))))))"

function tx_loop ::
  "(byte list \<Rightarrow> byte list) \<Rightarrow> string \<Rightarrow> byte list \<Rightarrow> nat \<Rightarrow> nat \<Rightarrow> nat \<Rightarrow> string list
     \<Rightarrow> exn + string list" where
  "tx_loop sha256 blockHex buf txCount i offset txHashes =
     (if i < txCount \<and> offset < length buf then
        (case tx_body buf offset of
           Inl e \<Rightarrow> Inl e
         | Inr Break \<Rightarrow> Inr txHashes
         | Inr (Next offset') \<Rightarrow>
             (let txHex = slice blockHex (offset * 2) (offset' * 2);
                  txBuffer = from_hex txHex;
                  txid = hash256_hex sha256 txBuffer
              in tx_loop sha256 blockHex buf txCount (i + 1) offset' (txHashes @ [txid])))
      else Inr txHashes)"
  by pat_completeness auto
termination
  by (relation "measure (\<lambda>(sha256, blockHex, buf, txCount, i, offset, txHashes). txCount - i)")
    auto

definition parseTransactionHashesFromBlock :: "(byte list \<Rightarrow> byte list) \<Rightarrow> string \<Rightarrow> string list" where
  "parseTransactionHashesFromBlock sha256 blockHex =
     (if blockHex = [] \<or> length blockHex \<le> 160 then []
      else
        let blockBuffer = from_hex blockHex
        in (case readVarint blockBuffer 80 of
              Inl e \<Rightarrow> []
            | Inr (txCount, sz) \<Rightarrow>
                (case tx_loop sha256 blockHex blockBuffer txCount 0 (80 + sz) [] of
                   Inl e \<Rightarrow> []
                 | Inr txHashes \<Rightarrow> txHashes)))"


section \<open>RPC client (class ElectrumClient)\<close>

text \<open>
  A parsed inbound message. \<open>p_id = None\<close> is \<open>payload.id === undefined\<close>; an id that
  is a number is \<open>IdNum n\<close>, any other JSON value (a string, \<open>null\<close>, ...) is
  \<open>IdOther\<close> and is never a key of the pending map, whose keys are the numbers issued by
  \<open>send\<close>. A field tested for truthiness is \<open>None\<close> when it is absent or falsy.
\<close>

datatype jsid = IdNum nat | IdOther

datatype rpc_error = ErrorObject "string option"   \<comment> \<open>\<open>payload.error\<close> with its \<open>message\<close>\<close>

record 'v payload =
  p_id :: "jsid option"
  p_method :: "string option"
  p_params :: "'v option"
  p_error :: "rpc_error option"
  p_result :: 'v

datatype 'v promise = Pending | Resolved 'v | Rejected string

text \<open>
  The client: \<open>promises\<close> is the store of the promises returned by \<open>send\<close> (a promise
  is named by its index); \<open>pending\<close> maps a request id to the promise whose
  \<open>resolve\<close>/\<open>reject\<close> pair it holds; \<open>subscriptions\<close> maps a method name to a handler
  (named by a number); \<open>handled\<close> logs the handler calls; \<open>sent\<close> logs \<open>ws.send\<close>.
\<close>

record 'v client =
  ws_open :: bool
  next_id :: nat
  pending :: "nat \<rightharpoonup> nat"
  subscriptions :: "string \<rightharpoonup> nat"
  promises :: "'v promise list"
  handled :: "(nat \<times> 'v) list"
  sent :: "(nat \<times> string \<times> 'v list) list"

definition settle :: "nat \<Rightarrow> 'v promise \<Rightarrow> 'v client \<Rightarrow> 'v client" where
  \<comment> \<open>calling \<open>resolve\<close> or \<open>reject\<close> of promise \<open>k\<close>; a settled promise stays as it is\<close>
  "settle k outcome c =
     (if k < length (promises c) \<and> promises c ! k = Pending
      then c\<lparr>promises := (promises c)[k := outcome]\<rparr> else c)"

definition connected_client :: "'v client" where
  \<comment> \<open>the state after \<open>connect\<close> has opened the socket\<close>
  "connected_client =
     \<lparr>ws_open = True, next_id = 0, pending = Map.empty, subscriptions = Map.empty,
      promises = [], handled = [], sent = []\<rparr>"

definition send :: "string \<Rightarrow> 'v list \<Rightarrow> 'v client \<Rightarrow> nat \<times> 'v client" where
  \<comment> \<open>returns the promise and the new state\<close>
  "send method params c =
     (let k = length (promises c)
      in if \<not> ws_open c
         then (k, c\<lparr>promises := promises c @ [Rejected ''Not connected to Electrum server'']\<rparr>)
         else
           let id' = next_id c + 1
           in (k, c\<lparr>next_id := id',
                     sent := sent c @ [(id', method, params)],
                     promises := promises c @ [Pending],
                     pending := (pending c)(id' \<mapsto> k)\<rparr>))"

definition timeout_fires :: "nat \<Rightarrow> 'v client \<Rightarrow> 'v client" where
  \<comment> \<open>the \<open>setTimeout\<close> callback of the call with this id\<close>
  "timeout_fires id' c =
     (case pending c id' of
        None \<Rightarrow> c
      | Some k \<Rightarrow> settle k (Rejected ''Electrum request timed out'')
                   (c\<lparr>pending := (pending c)(id' := None)\<rparr>))"

definition pending_lookup :: "'v client \<Rightarrow> jsid option \<Rightarrow> (nat \<times> nat) option" where
  \<comment> \<open>\<open>payload.id !== undefined && this.pending.has(payload.id)\<close>; when it holds, the key
      and \<open>this.pending.get(payload.id)\<close>\<close>
  "pending_lookup c i =
     (case i of
        Some (IdNum n) \<Rightarrow> (case pending c n of Some k \<Rightarrow> Some (n, k) | None \<Rightarrow> None)
      | _ \<Rightarrow> None)"

definition error_message :: "rpc_error \<Rightarrow> string" where
  \<comment> \<open>\<open>payload.error.message || 'Electrum error'\<close>\<close>
  "error_message e =
     (case e of ErrorObject (Some m) \<Rightarrow> (if m = [] then ''Electrum error'' else m)
              | ErrorObject None \<Rightarrow> ''Electrum error'')"

definition truthy_method :: "string option \<Rightarrow> string option" where
  \<comment> \<open>the empty string is falsy\<close>
  "truthy_method m = (case m of Some s \<Rightarrow> (if s = [] then None else Some s) | None \<Rightarrow> None)"

definition onMessage :: "'v payload option \<Rightarrow> 'v client \<Rightarrow> 'v client" where
  \<comment> \<open>\<open>None\<close>: \<open>JSON.parse\<close> threw, or reading a field of the parsed value did\<close>
  "onMessage ev c =
     (case ev of
        None \<Rightarrow> c
      | Some msg \<Rightarrow>
         (case pending_lookup c (p_id msg) of
            Some (n, k) \<Rightarrow>
              (let c' = c\<lparr>pending := (pending c)(n := None)\<rparr>
               in (case p_error msg of
                     Some e \<Rightarrow> settle k (Rejected (error_message e)) c'
                   | None \<Rightarrow> settle k (Resolved (p_result msg)) c'))
          | None \<Rightarrow>
              (case (truthy_method (p_method msg), p_params msg) of
                 (Some m, Some ps) \<Rightarrow>
                   (case subscriptions c m of
                      Some h \<Rightarrow> c\<lparr>handled := handled c @ [(h, ps)]\<rparr>
                    | None \<Rightarrow> c)
               | _ \<Rightarrow> c)))"

section \<open>Unlock lockout (src/context/WalletContext.tsx)\<close>

definition MAX_UNLOCK_ATTEMPTS :: nat where
  "MAX_UNLOCK_ATTEMPTS = 5"

definition LOCKOUT_DURATION :: int where
  "LOCKOUT_DURATION = 15 * 60 * 1000"

text \<open>
  The part of the provider's state that \<open>unlockWallet\<close> reads and writes: the React state
  \<open>unlockAttempts\<close>, \<open>lockoutUntil\<close> (\<open>None\<close> is \<open>null\<close>) and \<open>isLocked\<close>, and the session
  storage keys. \<open>verifications\<close> counts the calls of \<open>verifyPassword\<close>. Times are
  milliseconds as returned by \<open>Date.now()\<close>.
\<close>

record session =
  unlockAttempts :: nat
  lockoutUntil :: "int option"
  isLocked :: bool
  stored_attempts :: "nat option"      \<comment> \<open>\<open>wallet_unlock_attempts\<close>\<close>
  stored_lockout :: "int option"       \<comment> \<open>\<open>wallet_lockout_until\<close>\<close>
  has_encrypted_data :: bool           \<comment> \<open>\<open>wallet_encrypted_data\<close> is present\<close>
  has_password_hash :: bool            \<comment> \<open>\<open>wallet_password_hash\<close> is present\<close>
  hash_well_formed :: bool             \<comment> \<open>the stored hash parses to \<open>{hash, salt}\<close>\<close>
  verifications :: nat

datatype unlock_error =
    LockedOut                 \<comment> \<open>'Too many failed attempts. Please wait n minutes ...'\<close>
  | NoWalletData              \<comment> \<open>'No encrypted wallet data found'\<close>
  | CorruptedData             \<comment> \<open>'Corrupted wallet data'\<close>
  | TooManyAttempts           \<comment> \<open>'Too many failed attempts. Please wait 15 minutes ...'\<close>
  | InvalidPassword nat       \<comment> \<open>'Invalid password. n attempts remaining.'\<close>
  | RestoreFailed             \<comment> \<open>decrypting or deriving the key failed\<close>

definition lockout_active :: "int option \<Rightarrow> int \<Rightarrow> bool" where
  \<comment> \<open>\<open>lockoutUntil && Date.now() < lockoutUntil\<close>\<close>
  "lockout_active l now = (case l of None \<Rightarrow> False | Some t \<Rightarrow> t \<noteq> 0 \<and> now < t)"

text \<open>
  \<open>unlockWallet\<close>. \<open>verify\<close> is \<open>verifyPassword\<close> against the stored hash and \<open>restore\<close>
  says whether decrypting the secret and deriving the key pair succeed; \<open>now\<close> is the
  clock at the lockout check and \<open>now'\<close> the clock when a lockout is set. The result is
  the error thrown, if any, and the state left behind.
\<close>

definition unlockWallet ::
  "(string \<Rightarrow> bool) \<Rightarrow> (string \<Rightarrow> bool) \<Rightarrow> int \<Rightarrow> int \<Rightarrow> string \<Rightarrow> session
     \<Rightarrow> unlock_error option \<times> session" where
  "unlockWallet verify restore now now' password s =
     (if lockout_active (lockoutUntil s) now then (Some LockedOut, s)
      else if \<not> has_encrypted_data s then (Some NoWalletData, s)
      else if \<not> has_password_hash s then (Some NoWalletData, s)
      else if \<not> hash_well_formed s then (Some CorruptedData, s)
      else
        let s1 = s\<lparr>verifications := verifications s + 1\<rparr>
        in if \<not> verify password then
             (let newAttempts = unlockAttempts s1 + 1;
                  s2 = s1\<lparr>unlockAttempts := newAttempts, stored_attempts := Some newAttempts\<rparr>
              in if newAttempts \<ge> MAX_UNLOCK_ATTEMPTS then
                   (let lockoutTime = now' + LOCKOUT_DURATION
                    in (Some TooManyAttempts,
                        s2\<lparr>lockoutUntil := Some lockoutTime, stored_lockout := Some lockoutTime\<rparr>))
                 else (Some (InvalidPassword (MAX_UNLOCK_ATTEMPTS - newAttempts)), s2))
           else
             (let s2 = s1\<lparr>unlockAttempts := 0, lockoutUntil := None,
                          stored_attempts := None, stored_lockout := None\<rparr>
              in if \<not> restore password then (Some RestoreFailed, s2)
                 else (None, s2\<lparr>isLocked := False\<rparr>)))"

text \<open>
  The part of the mount effect of \<open>WalletProvider\<close> that restores the attempt counter
  and the lockout from session storage (the React state starts at 0 and \<open>null\<close>).
\<close>

definition restore_lockout :: "int \<Rightarrow> session \<Rightarrow> session" where
  "restore_lockout now s =
     (let s1 = (case stored_attempts s of
                  Some n \<Rightarrow> s\<lparr>unlockAttempts := n\<rparr>
                | None \<Rightarrow> s)
      in (case stored_lockout s1 of
            None \<Rightarrow> s1
          | Some lockoutTime \<Rightarrow>
              (if now < lockoutTime then s1\<lparr>lockoutUntil := Some lockoutTime\<rparr>
               else s1\<lparr>stored_lockout := None, stored_attempts := None,
                       unlockAttempts := 0, lockoutUntil := None\<rparr>)))"

definition fresh_session :: session where
  \<comment> \<open>a wallet with a password set, no failed attempt so far\<close>
  "fresh_session =
     \<lparr>unlockAttempts = 0, lockoutUntil = None, isLocked = True,
      stored_attempts = None, stored_lockout = None,
      has_encrypted_data = True, has_password_hash = True, hash_well_formed = True,
      verifications = 0\<rparr>"


section \<open>Crypto vault (src/lib/wallet/password.ts)\<close>

text \<open>
  A JavaScript string is a sequence of 16-bit code units. \<open>TextEncoder.encode\<close> converts
  it to scalar values (a surrogate pair is one code point, a lone surrogate becomes
  U+FFFD) and writes them as UTF-8.
\<close>

type_synonym jsstring = "16 word list"

definition is_high :: "nat \<Rightarrow> bool" where
  "is_high c = (0xD800 \<le> c \<and> c \<le> 0xDBFF)"

definition is_low :: "nat \<Rightarrow> bool" where
  "is_low c = (0xDC00 \<le> c \<and> c \<le> 0xDFFF)"

definition scalar :: "nat \<Rightarrow> nat" where
  "scalar c = (if is_high c \<or> is_low c then 0xFFFD else c)"

fun code_points :: "nat list \<Rightarrow> nat list" where
  "code_points [] = []"
| "code_points [c] = [scalar c]"
| "code_points (c # d # rest) =
     (if is_high c \<and> is_low d
      then (0x10000 + (c - 0xD800) * 0x400 + (d - 0xDC00)) # code_points rest
      else scalar c # code_points (d # rest))"

definition utf8_bytes :: "nat \<Rightarrow> nat list" where
  "utf8_bytes cp =
     (if cp < 0x80 then [cp]
      else if cp < 0x800 then [0xC0 + cp div 64, 0x80 + cp mod 64]
      else if cp < 0x10000 then
        [0xE0 + cp div 4096, 0x80 + (cp div 64) mod 64, 0x80 + cp mod 64]
      else [0xF0 + cp div 262144, 0x80 + (cp div 4096) mod 64, 0x80 + (cp div 64) mod 64,
            0x80 + cp mod 64])"

definition TextEncoder_encode :: "jsstring \<Rightarrow> byte list" where
  "TextEncoder_encode s =
     map word_of_nat (concat (map utf8_bytes (code_points (map unat s))))"

text \<open>
  \<open>new TextDecoder().decode\<close>: the UTF-8 decoder of the Encoding standard, not fatal (a
  malformed sequence gives U+FFFD and the offending byte is read again), with a leading
  byte order mark removed; the code points are written as UTF-16.
\<close>

definition is_cont :: "nat \<Rightarrow> nat \<Rightarrow> nat \<Rightarrow> bool" where
  "is_cont lo hi b = (lo \<le> b \<and> b \<le> hi)"

fun utf8_decode :: "nat list \<Rightarrow> nat list" where
  "utf8_decode [] = []"
| "utf8_decode (b # bs) =
     (if b < 0x80 then b # utf8_decode bs
      else if 0xC2 \<le> b \<and> b \<le> 0xDF then
        (case bs of
           [] \<Rightarrow> [0xFFFD]
         | b1 # r1 \<Rightarrow>
             (if is_cont 0x80 0xBF b1
              then ((b - 0xC0) * 64 + (b1 - 0x80)) # utf8_decode r1
              else 0xFFFD # utf8_decode (b1 # r1)))
      else if 0xE0 \<le> b \<and> b \<le> 0xEF then
        (case bs of
           [] \<Rightarrow> [0xFFFD]
         | b1 # r1 \<Rightarrow>
             (if is_cont (if b = 0xE0 then 0xA0 else 0x80) (if b = 0xED then 0x9F else 0xBF) b1
              then (case r1 of
                      [] \<Rightarrow> [0xFFFD]
                    | b2 # r2 \<Rightarrow>
                        (if is_cont 0x80 0xBF b2
                         then ((b - 0xE0) * 4096 + (b1 - 0x80) * 64 + (b2 - 0x80))
                                # utf8_decode r2
                         else 0xFFFD # utf8_decode (b2 # r2)))
              else 0xFFFD # utf8_decode (b1 # r1)))
      else if 0xF0 \<le> b \<and> b \<le> 0xF4 then
        (case bs of
           [] \<Rightarrow> [0xFFFD]
         | b1 # r1 \<Rightarrow>
             (if is_cont (if b = 0xF0 then 0x90 else 0x80) (if b = 0xF4 then 0x8F else 0xBF) b1
              then (case r1 of
                      [] \<Rightarrow> [0xFFFD]
                    | b2 # r2 \<Rightarrow>
                        (if is_cont 0x80 0xBF b2
                         then (case r2 of
                                 [] \<Rightarrow> [0xFFFD]
                               | b3 # r3 \<Rightarrow>
                                   (if is_cont 0x80 0xBF b3
                                    then ((b - 0xF0) * 262144 + (b1 - 0x80) * 4096
                                            + (b2 - 0x80) * 64 + (b3 - 0x80))
                                           # utf8_decode r3
                                    else 0xFFFD # utf8_decode (b3 # r3)))
                         else 0xFFFD # utf8_decode (b2 # r2)))
              else 0xFFFD # utf8_decode (b1 # r1)))
      else 0xFFFD # utf8_decode bs)"

definition utf16_units :: "nat \<Rightarrow> nat list" where
  "utf16_units cp =
     (if cp < 0x10000 then [cp]
      else [0xD800 + (cp - 0x10000) div 0x400, 0xDC00 + (cp - 0x10000) mod 0x400])"

definition strip_bom :: "nat list \<Rightarrow> nat list" where
  "strip_bom cps = (case cps of [] \<Rightarrow> [] | c # rest \<Rightarrow> (if c = 0xFEFF then rest else cps))"

definition TextDecoder_decode :: "byte list \<Rightarrow> jsstring" where
  "TextDecoder_decode bs =
     map word_of_nat (concat (map utf16_units (strip_bom (utf8_decode (map unat bs)))))"

text \<open>
  The Web Crypto and base64 functions of the browser are parameters:
  \<open>pbkdf2_key\<close> is \<open>deriveKey\<close> (PBKDF2, SHA-256, 100000 iterations, to an AES-GCM key)
  on the encoded password and the salt; \<open>gcm_encrypt key iv data\<close> returns the
  ciphertext followed by the 16-byte tag; \<open>gcm_decrypt\<close> is \<open>None\<close> when
  \<open>crypto.subtle.decrypt\<close> rejects; \<open>btoa_bytes\<close> is
  \<open>btoa(String.fromCharCode(...bytes))\<close> and \<open>atob_bytes\<close> is
  \<open>Uint8Array.from(atob(s), c => c.charCodeAt(0))\<close>, \<open>None\<close> when \<open>atob\<close> throws.
\<close>

record 'key webcrypto =
  pbkdf2_key :: "byte list \<Rightarrow> byte list \<Rightarrow> 'key"
  gcm_encrypt :: "'key \<Rightarrow> byte list \<Rightarrow> byte list \<Rightarrow> byte list"
  gcm_decrypt :: "'key \<Rightarrow> byte list \<Rightarrow> byte list \<Rightarrow> byte list option"
  btoa_bytes :: "byte list \<Rightarrow> string"
  atob_bytes :: "string \<Rightarrow> byte list option"

record EncryptedData =
  encrypted :: string
  salt :: string
  iv :: string
  tag :: string

datatype decrypt_error = InvalidPasswordOrCorruptedData   \<comment> \<open>'Invalid password or corrupted data'\<close>

definition deriveKey :: "'key webcrypto \<Rightarrow> jsstring \<Rightarrow> byte list \<Rightarrow> 'key" where
  "deriveKey wc password salt' = pbkdf2_key wc (TextEncoder_encode password) salt'"

text \<open>
  \<open>encryptWithPassword\<close>; \<open>salt'\<close> and \<open>iv'\<close> are the values drawn by
  \<open>crypto.getRandomValues\<close>. \<open>slice(-16)\<close> is the last 16 bytes (all of them when there
  are fewer) and \<open>slice(0, -16)\<close> is what precedes them.
\<close>

definition encryptWithPassword ::
  "'key webcrypto \<Rightarrow> byte list \<Rightarrow> byte list \<Rightarrow> jsstring \<Rightarrow> jsstring \<Rightarrow> EncryptedData" where
  "encryptWithPassword wc salt' iv' data password =
     (let key = deriveKey wc password salt';
          encryptedArray = gcm_encrypt wc key iv' (TextEncoder_encode data);
          tag' = drop (length encryptedArray - 16) encryptedArray;
          ciphertext = take (length encryptedArray - 16) encryptedArray
      in \<lparr>encrypted = btoa_bytes wc ciphertext, salt = btoa_bytes wc salt',
          iv = btoa_bytes wc iv', tag = btoa_bytes wc tag'\<rparr>)"

definition decryptWithPassword ::
  "'key webcrypto \<Rightarrow> EncryptedData \<Rightarrow> jsstring \<Rightarrow> decrypt_error + jsstring" where
  "decryptWithPassword wc encryptedData password =
     (case atob_bytes wc (salt encryptedData) of
        None \<Rightarrow> Inl InvalidPasswordOrCorruptedData
      | Some salt' \<Rightarrow>
     (case atob_bytes wc (iv encryptedData) of
        None \<Rightarrow> Inl InvalidPasswordOrCorruptedData
      | Some iv' \<Rightarrow>
     (case atob_bytes wc (encrypted encryptedData) of
        None \<Rightarrow> Inl InvalidPasswordOrCorruptedData
      | Some ciphertext \<Rightarrow>
     (case atob_bytes wc (tag encryptedData) of
        None \<Rightarrow> Inl InvalidPasswordOrCorruptedData
      | Some tag' \<Rightarrow>
     (case gcm_decrypt wc (deriveKey wc password salt') iv' (ciphertext @ tag') of
        None \<Rightarrow> Inl InvalidPasswordOrCorruptedData
      | Some decrypted \<Rightarrow> Inr (TextDecoder_decode decrypted))))))"


section \<open>Concrete inputs\<close>

text \<open>
  A stand-in for bitcoinjs-lib that accepts every key, input and output, and sample
  parameters of \<open>buildAndSignTx\<close>.
\<close>

definition demo_p2wpkh :: "unit \<Rightarrow> network \<Rightarrow> string option" where
  "demo_p2wpkh k n = Some ''0014''"

definition demo_addInputs :: "string \<Rightarrow> utxo list \<Rightarrow> bool" where
  "demo_addInputs script us = True"

definition demo_sign :: "unit \<Rightarrow> utxo list \<Rightarrow> (string \<times> int) list \<Rightarrow> string option" where
  "demo_sign k ins outs = Some ''0200''"

definition demo_lib :: "unit bitcoinjs" where
  "demo_lib = \<lparr>p2wpkh_output = demo_p2wpkh, addInputs_ok = demo_addInputs,
               signAndSerialize = demo_sign\<rparr>"

definition demo_utxo :: "int \<Rightarrow> utxo" where
  "demo_utxo v = \<lparr>txid = ''aa'', vout = 0, value' = v\<rparr>"

definition demo_target :: "int \<Rightarrow> rat \<Rightarrow> utxo list \<Rightarrow> bool \<Rightarrow> unit SpendTarget" where
  "demo_target amt rate us incl =
     \<lparr>amountSats = amt, feeRate = rate, utxos = us, includeFee = incl,
      toAddress = ''to'', fromAddress = ''from'', keyPair = (), networkType = mainnet\<rparr>"

text \<open>
  The little-endian value of a byte sequence, as the format documents it (used to state
  what \<open>parseBlockHeader\<close> decodes).
\<close>

fun little_endian :: "byte list \<Rightarrow> nat" where
  "little_endian [] = 0"
| "little_endian (b # bs) = unat b + 256 * little_endian bs"

text \<open>
  A stand-in for SHA-256 (the first 32 bytes of the zero-padded input), used only where
  a closed statement needs some hash function.
\<close>

definition demo_sha256 :: "byte list \<Rightarrow> byte list" where
  "demo_sha256 bs = take 32 (bs @ replicate 32 0)"

text \<open>The header of Bitcoin's genesis block.\<close>

definition genesis_header :: string where
  "genesis_header =
     ''01000000'' @
     ''0000000000000000000000000000000000000000000000000000000000000000'' @
     ''3ba3edfd7a7b12b27ac72c3e67768f617fc81bc3888a51323a9fb8aa4b1e5e4a'' @
     ''29ab5f49'' @ ''ffff001d'' @ ''1dac2b7c''"

text \<open>
  A transaction with one input and one output, both with empty scripts (60 bytes), and
  a block of two transactions that is cut after the version field of the second one.
\<close>

definition sample_tx :: string where
  "sample_tx =
     ''01000000'' @ ''01'' @
     ''0000000000000000000000000000000000000000000000000000000000000000'' @ ''00000000'' @
     ''00'' @ ''ffffffff'' @
     ''01'' @ ''0000000000000000'' @ ''00'' @ ''00000000''"

definition truncated_block :: string where
  "truncated_block = genesis_header @ ''02'' @ sample_tx @ ''01000000''"

text \<open>
  A block of one transaction that is cut inside the script of its only input: the script
  length says 16 bytes and 5 bytes follow.
\<close>

definition cut_tx :: string where
  "cut_tx =
     ''01000000'' @ ''01'' @
     ''0000000000000000000000000000000000000000000000000000000000000000'' @ ''00000000'' @
     ''10'' @ ''0000000000''"

definition block_cut_in_script :: string where
  "block_cut_in_script = genesis_header @ ''01'' @ cut_tx"

text \<open>
  \<open>subscribeScripthash\<close>: the handler is stored under the method name, then the request
  is sent.
\<close>

definition subscribeScripthash :: "'v \<Rightarrow> nat \<Rightarrow> 'v client \<Rightarrow> nat \<times> 'v client" where
  "subscribeScripthash scripthash handler c =
     send ''blockchain.scripthash.subscribe'' [scripthash]
       (c\<lparr>subscriptions := (subscriptions c)(''blockchain.scripthash.subscribe'' \<mapsto> handler)\<rparr>)"

text \<open>The states a connected client goes through.\<close>

inductive reachable :: "'v client \<Rightarrow> bool" where
  start: "reachable connected_client"
| sends: "reachable c \<Longrightarrow> reachable (snd (send method params c))"
| subscribes: "reachable c \<Longrightarrow> reachable (snd (subscribeScripthash scripthash handler c))"
| receives: "reachable c \<Longrightarrow> reachable (onMessage ev c)"
| times_out: "reachable c \<Longrightarrow> reachable (timeout_fires n c)"

text \<open>
  What the routing rule asks for, in the words of the specification: the settlement of a
  response, and the handler calls of a notification (the handler registered for its
  method, if there is one).
\<close>

definition outcome :: "'v payload \<Rightarrow> 'v promise" where
  "outcome msg =
     (case p_error msg of None \<Rightarrow> Resolved (p_result msg)
                        | Some e \<Rightarrow> Rejected (error_message e))"

definition notified :: "'v client \<Rightarrow> 'v payload \<Rightarrow> (nat \<times> 'v) list" where
  "notified c msg =
     (case truthy_method (p_method msg) of
        None \<Rightarrow> []
      | Some m \<Rightarrow>
          (case p_params msg of
             None \<Rightarrow> []
           | Some ps \<Rightarrow> (case subscriptions c m of None \<Rightarrow> [] | Some h \<Rightarrow> [(h, ps)])))"

text \<open>Sample messages and states: a response, three calls in flight, one subscription.\<close>

definition response :: "nat \<Rightarrow> 'v \<Rightarrow> 'v payload option" where
  "response n r =
     Some \<lparr>p_id = Some (IdNum n), p_method = None, p_params = None, p_error = None,
           p_result = r\<rparr>"

definition three_calls :: "string client" where
  "three_calls =
     snd (send ''blockchain.transaction.get'' [''ab'']
       (snd (send ''blockchain.relayfee'' []
         (snd (send ''server.ping'' [] connected_client)))))"

definition subscribed_client :: "string client" where
  "subscribed_client = snd (subscribeScripthash ''5c'' 0 connected_client)"

definition tagged_notification :: "string payload" where
  "tagged_notification =
     \<lparr>p_id = Some (IdNum 7), p_method = Some ''blockchain.scripthash.subscribe'',
      p_params = Some ''status'', p_error = None, p_result = ''''\<rparr>"

text \<open>
  The invariant of the pending map: every pending id was issued, and maps to a promise
  of the store that is still pending and belongs to no other id.
\<close>

definition wf :: "'v client \<Rightarrow> bool" where
  "wf c = (\<forall>n k. pending c n = Some k \<longrightarrow>
             n \<le> next_id c \<and> k < length (promises c) \<and> promises c ! k = Pending
             \<and> (\<forall>m. pending c m = Some k \<longrightarrow> m = n))"

text \<open>
  Sample runs of \<open>unlockWallet\<close>: a password check that rejects, one that accepts, and
  the session after five failed attempts made at the times 1000, 2000, ..., 5000.
\<close>

definition rejects :: "string \<Rightarrow> bool" where
  "rejects password = False"

definition accepts :: "string \<Rightarrow> bool" where
  "accepts password = True"

definition failed_unlock :: "int \<Rightarrow> session \<Rightarrow> session" where
  "failed_unlock now s = snd (unlockWallet rejects accepts now now ''wrong'' s)"

definition after_five_failures :: session where
  "after_five_failures =
     failed_unlock 5000 (failed_unlock 4000 (failed_unlock 3000 (failed_unlock 2000
       (failed_unlock 1000 fresh_session))))"

section \<open>Properties of the transaction engine\<close>

lemmas demo_defs = demo_p2wpkh_def demo_addInputs_def demo_sign_def demo_lib_def demo_utxo_def
  demo_target_def

lemmas tx_defs = buildAndSignTx_def estimateFee_def selectedUtxos_def totalIn_def finalFee_def
  actualAmount_def change_def sum_outs_def estimateVBytes_def feeFor_def outputCountFor_def

text \<open>The two selection loops stop after the same number of inputs.\<close>

lemma loops_agree:
  "estimateFee_loop amt rate incl us tin (int (length sel)) f0 =
   (if us = [] then f0
    else feeFor (estimateVBytes (int (length (fst (select_loop amt rate incl us sel tin))))
           (outputCountFor incl)) rate)"
proof (induction us arbitrary: tin sel f0)
  case Nil
  then show ?case by simp
next
  case (Cons u us)
  have len: "int (length sel) + 1 = int (length (sel @ [u]))" by simp
  show ?case
    using Cons.IH [of "tin + value' u" "sel @ [u]"]
    by (cases us) (simp_all add: Let_def len del: length_append)
qed

lemma estimateFee_finalFee:
  "utxos p \<noteq> [] \<Longrightarrow> 0 < amountSats p \<Longrightarrow> estimatedFee (estimateFee p) = finalFee p"
  using loops_agree [of "amountSats p" "feeRate p" "includeFee p" "utxos p" 0 "[]" 0]
  by (simp add: estimateFee_def finalFee_def selectedUtxos_def Let_def)

lemma select_loop_sum:
  "snd (select_loop amt rate incl us sel t)
     - sum_list (map value' (fst (select_loop amt rate incl us sel t)))
   = t - sum_list (map value' sel)"
  by (induction us arbitrary: sel t) (simp_all add: Let_def)

lemma totalIn_sum: "totalIn p = sum_list (map value' (selectedUtxos p))"
  using select_loop_sum [of "amountSats p" "feeRate p" "includeFee p" "utxos p" "[]" 0]
  by (simp add: totalIn_def selectedUtxos_def)

lemma sum_outs_simps:
  "sum_outs [] = 0" "sum_outs [(a, v)] = v" "sum_outs [(a, v), (b, w)] = v + w"
  by (simp_all add: sum_outs_def)

lemma build_success:
  assumes "buildAndSignTx lib p = Inr r"
  shows "0 < amountSats p" and "utxos p \<noteq> []" and "0 \<le> change p"
    and "tx_outputs r = (toAddress p, actualAmount p)
           # (if 546 < change p then [(fromAddress p, change p)] else [])"
    and "fee r = totalIn p - sum_outs (tx_outputs r)"
    and "tx_inputs r = selectedUtxos p"
    and "includeFee p \<Longrightarrow> 0 < amountSats p - finalFee p"
  using assms
  by (auto simp: buildAndSignTx_def actualAmount_def Let_def split: if_splits option.splits)

text \<open>
  C10. \<open>estimateFee\<close> is a total function of its parameters. On an empty UTXO list or a
  non-positive amount it returns the all-zero estimate, where \<open>buildAndSignTx\<close> on the
  same parameters fails with \<open>InvalidAmount\<close> or \<open>NoFunds\<close>.
\<close>

theorem C10_estimateFee_zero_result:
  "utxos p = [] \<or> amountSats p \<le> 0 \<Longrightarrow>
     estimateFee p = \<lparr>estimatedFee = 0, actualAmountSats = 0, totalNeeded = 0\<rparr>
     \<and> (buildAndSignTx lib p = Inl InvalidAmount \<or> buildAndSignTx lib p = Inl NoFunds)"
  by (auto simp: estimateFee_def buildAndSignTx_def)

theorem C10_witness:
  "(utxos (demo_target 1000 1 [] False) = [] \<or> amountSats (demo_target 1000 1 [] False) \<le> 0)
   \<and> estimateFee (demo_target 1000 1 [] False)
       = \<lparr>estimatedFee = 0, actualAmountSats = 0, totalNeeded = 0\<rparr>
   \<and> buildAndSignTx demo_lib (demo_target 1000 1 [] False) = Inl NoFunds"
  using C10_estimateFee_zero_result [of "demo_target 1000 1 [] False" demo_lib]
  by (simp add: demo_defs buildAndSignTx_def)

text \<open>
  C7. When \<open>buildAndSignTx\<close> succeeds, the first output pays the recipient, and a second
  output, to the sender, exists exactly when the change (the sum of the selected inputs
  minus the recipient's value minus the estimated fee) is above 546; every output after
  the first is worth more than 546.
\<close>

theorem C7_change_output_above_dust:
  assumes "buildAndSignTx lib p = Inr r"
  shows "(let recipient = snd (hd (tx_outputs r));
              ch = sum_list (map value' (tx_inputs r)) - recipient - finalFee p
          in tx_outputs r
               = (toAddress p, recipient) # (if 546 < ch then [(fromAddress p, ch)] else [])
             \<and> (\<forall>out \<in> set (tl (tx_outputs r)). 546 < snd out))"
  using build_success(4,6) [OF assms] totalIn_sum [of p]
  by (auto simp: Let_def change_def)

theorem C7_witness:
  "buildAndSignTx demo_lib (demo_target 1000 1 [demo_utxo 5000] False)
     = Inr \<lparr>hex = ''0200'', fee = 140, tx_inputs = [demo_utxo 5000],
            tx_outputs = [(''to'', 1000), (''from'', 3860)]\<rparr>
   \<and> finalFee (demo_target 1000 1 [demo_utxo 5000] False) = 140
   \<and> 546 < snd (''from'', 3860 :: int)"
proof -
  have ev: "buildAndSignTx demo_lib (demo_target 1000 1 [demo_utxo 5000] False)
     = Inr \<lparr>hex = ''0200'', fee = 140, tx_inputs = [demo_utxo 5000],
            tx_outputs = [(''to'', 1000), (''from'', 3860)]\<rparr>"
    by (simp add: demo_defs tx_defs Let_def)
  have fin: "finalFee (demo_target 1000 1 [demo_utxo 5000] False) = 140"
    by (simp add: demo_defs tx_defs Let_def)
  show ?thesis
    using C7_change_output_above_dust [OF ev] ev fin by (simp add: Let_def)
qed

text \<open>
  C3 as stated fails: with one input of 1640, an amount of 1000 and a rate of 1, the
  estimate is 140 and the change of 500 is not paid out, so the realised fee is 640.
\<close>

theorem C3_counterexample:
  "buildAndSignTx demo_lib (demo_target 1000 1 [demo_utxo 1640] False)
     = Inr \<lparr>hex = ''0200'', fee = 640, tx_inputs = [demo_utxo 1640],
            tx_outputs = [(''to'', 1000)]\<rparr>
   \<and> estimatedFee (estimateFee (demo_target 1000 1 [demo_utxo 1640] False)) = 140
   \<and> feeRate (demo_target 1000 1 [demo_utxo 1640] False) = 1
   \<and> \<not> (\<bar>640 - 140\<bar> \<le> (1 :: int))"
  by (simp add: demo_defs tx_defs Let_def)

text \<open>
  C3, amended. When \<open>buildAndSignTx\<close> succeeds, the fee it reports is the sum of the
  selected inputs minus the sum of the outputs; it equals the \<open>estimatedFee\<close> of
  \<open>estimateFee\<close> on the same parameters when a change output is made, and exceeds it by
  the change, between 0 and 546, when none is made.
\<close>

theorem C3_realized_fee:
  assumes "buildAndSignTx lib p = Inr r"
  shows "fee r = sum_list (map value' (tx_inputs r)) - sum_outs (tx_outputs r)
         \<and> fee r = estimatedFee (estimateFee p) + (if 546 < change p then 0 else change p)
         \<and> 0 \<le> change p
         \<and> estimatedFee (estimateFee p) \<le> fee r
         \<and> fee r \<le> estimatedFee (estimateFee p) + 546"
  using build_success [OF assms] estimateFee_finalFee [of p] totalIn_sum [of p]
  by (auto simp: sum_outs_simps change_def split: if_splits)

theorem C3_witness:
  "buildAndSignTx demo_lib (demo_target 1000 1 [demo_utxo 1640] False)
     = Inr \<lparr>hex = ''0200'', fee = 640, tx_inputs = [demo_utxo 1640],
            tx_outputs = [(''to'', 1000)]\<rparr>
   \<and> change (demo_target 1000 1 [demo_utxo 1640] False) = 500
   \<and> estimatedFee (estimateFee (demo_target 1000 1 [demo_utxo 1640] False)) + 500 = 640"
proof -
  have ev: "buildAndSignTx demo_lib (demo_target 1000 1 [demo_utxo 1640] False)
     = Inr \<lparr>hex = ''0200'', fee = 640, tx_inputs = [demo_utxo 1640],
            tx_outputs = [(''to'', 1000)]\<rparr>"
    by (simp add: demo_defs tx_defs Let_def)
  have ch: "change (demo_target 1000 1 [demo_utxo 1640] False) = 500"
    by (simp add: demo_defs tx_defs Let_def)
  show ?thesis
    using C3_realized_fee [OF ev] ev ch by simp
qed

lemma actual_nonpos: "includeFee p \<Longrightarrow> (actualAmount p \<le> 0) = (amountSats p - finalFee p \<le> 0)"
  by (simp add: actualAmount_def)

lemma change_neg:
  "\<not> (includeFee p \<and> amountSats p - finalFee p \<le> 0) \<Longrightarrow>
   (change p < 0) = (sum_list (map value' (selectedUtxos p))
                       < (if includeFee p then amountSats p else amountSats p + finalFee p))"
  by (auto simp: change_def actualAmount_def totalIn_sum)

text \<open>
  C8 as stated fails: with \<open>includeFee\<close>, an amount of 1000, a rate of 1 and one input of
  1000, the input does not cover the amount plus the estimated fee of 109, and the
  transaction is built all the same, paying 891 to the recipient.
\<close>

theorem C8_counterexample:
  "buildAndSignTx demo_lib (demo_target 1000 1 [demo_utxo 1000] True)
     = Inr \<lparr>hex = ''0200'', fee = 109, tx_inputs = [demo_utxo 1000],
            tx_outputs = [(''to'', 891)]\<rparr>
   \<and> amountSats (demo_target 1000 1 [demo_utxo 1000] True) = 1000
   \<and> finalFee (demo_target 1000 1 [demo_utxo 1000] True) = 109
   \<and> sum_list (map value' (selectedUtxos (demo_target 1000 1 [demo_utxo 1000] True))) = 1000
   \<and> (1000 :: int) < 1000 + 109"
  by (simp add: demo_defs tx_defs Let_def)

text \<open>
  C8, amended. The checks are made in this order. A non-positive amount gives
  \<open>InvalidAmount\<close>; otherwise an empty UTXO list gives \<open>NoFunds\<close>; otherwise, the
  signing script being derived, a fee-inclusive amount that the fee reduces to zero or
  less gives \<open>AmountBelowFee\<close>; otherwise, the inputs being accepted, selected inputs
  below the amount (fee included) or below the amount plus the estimated fee (fee on top)
  give \<open>InsufficientBalance\<close>. Each of these errors arises only in its case, and a
  transaction is produced only when none of them applies.
\<close>

theorem C8_error_conditions:
  "(amountSats p \<le> 0 \<longrightarrow> buildAndSignTx lib p = Inl InvalidAmount)
   \<and> (0 < amountSats p \<and> utxos p = [] \<longrightarrow> buildAndSignTx lib p = Inl NoFunds)
   \<and> (0 < amountSats p \<and> utxos p \<noteq> []
        \<and> p2wpkh_output lib (keyPair p) (networkType p) = Some script
        \<and> includeFee p \<and> amountSats p - finalFee p \<le> 0
       \<longrightarrow> buildAndSignTx lib p = Inl AmountBelowFee)
   \<and> (0 < amountSats p \<and> utxos p \<noteq> []
        \<and> p2wpkh_output lib (keyPair p) (networkType p) = Some script
        \<and> \<not> (includeFee p \<and> amountSats p - finalFee p \<le> 0)
        \<and> addInputs_ok lib script (selectedUtxos p)
        \<and> sum_list (map value' (selectedUtxos p))
             < (if includeFee p then amountSats p else amountSats p + finalFee p)
       \<longrightarrow> buildAndSignTx lib p = Inl InsufficientBalance)
   \<and> (buildAndSignTx lib p = Inl InvalidAmount \<longrightarrow> amountSats p \<le> 0)
   \<and> (buildAndSignTx lib p = Inl NoFunds \<longrightarrow> utxos p = [])
   \<and> (buildAndSignTx lib p = Inl AmountBelowFee
        \<longrightarrow> includeFee p \<and> amountSats p - finalFee p \<le> 0)
   \<and> (buildAndSignTx lib p = Inl InsufficientBalance
        \<longrightarrow> sum_list (map value' (selectedUtxos p))
             < (if includeFee p then amountSats p else amountSats p + finalFee p))
   \<and> (\<forall>r. buildAndSignTx lib p = Inr r
        \<longrightarrow> 0 < amountSats p \<and> utxos p \<noteq> []
            \<and> (includeFee p \<longrightarrow> 0 < amountSats p - finalFee p)
            \<and> (if includeFee p then amountSats p else amountSats p + finalFee p)
                \<le> sum_list (map value' (selectedUtxos p)))"
proof -
  have a: "amountSats p \<le> 0 \<longrightarrow> buildAndSignTx lib p = Inl InvalidAmount"
    by (simp add: buildAndSignTx_def)
  have b: "0 < amountSats p \<and> utxos p = [] \<longrightarrow> buildAndSignTx lib p = Inl NoFunds"
    by (simp add: buildAndSignTx_def)
  have c: "0 < amountSats p \<and> utxos p \<noteq> []
        \<and> p2wpkh_output lib (keyPair p) (networkType p) = Some script
        \<and> includeFee p \<and> amountSats p - finalFee p \<le> 0
       \<longrightarrow> buildAndSignTx lib p = Inl AmountBelowFee"
    by (simp add: buildAndSignTx_def actual_nonpos)
  have d: "0 < amountSats p \<and> utxos p \<noteq> []
        \<and> p2wpkh_output lib (keyPair p) (networkType p) = Some script
        \<and> \<not> (includeFee p \<and> amountSats p - finalFee p \<le> 0)
        \<and> addInputs_ok lib script (selectedUtxos p)
        \<and> sum_list (map value' (selectedUtxos p))
             < (if includeFee p then amountSats p else amountSats p + finalFee p)
       \<longrightarrow> buildAndSignTx lib p = Inl InsufficientBalance"
    using change_neg [of p] by (auto simp: buildAndSignTx_def actual_nonpos)
  have e: "buildAndSignTx lib p = Inl InvalidAmount \<longrightarrow> amountSats p \<le> 0"
    by (auto simp: buildAndSignTx_def Let_def split: if_splits option.splits)
  have f: "buildAndSignTx lib p = Inl NoFunds \<longrightarrow> utxos p = []"
    by (auto simp: buildAndSignTx_def Let_def split: if_splits option.splits)
  have g: "buildAndSignTx lib p = Inl AmountBelowFee
        \<longrightarrow> includeFee p \<and> amountSats p - finalFee p \<le> 0"
    by (auto simp: buildAndSignTx_def Let_def actual_nonpos split: if_splits option.splits)
  have h: "buildAndSignTx lib p = Inl InsufficientBalance
        \<longrightarrow> sum_list (map value' (selectedUtxos p))
             < (if includeFee p then amountSats p else amountSats p + finalFee p)"
    using change_neg [of p]
    by (auto simp: buildAndSignTx_def Let_def actual_nonpos split: if_splits option.splits)
  have i: "\<forall>r. buildAndSignTx lib p = Inr r
        \<longrightarrow> 0 < amountSats p \<and> utxos p \<noteq> []
            \<and> (includeFee p \<longrightarrow> 0 < amountSats p - finalFee p)
            \<and> (if includeFee p then amountSats p else amountSats p + finalFee p)
                \<le> sum_list (map value' (selectedUtxos p))"
    using change_neg [of p]
    by (auto simp: buildAndSignTx_def Let_def actual_nonpos split: if_splits option.splits)
  from a b c d e f g h i show ?thesis by blast
qed

theorem C8_witness:
  "buildAndSignTx demo_lib (demo_target 0 1 [demo_utxo 1000] False) = Inl InvalidAmount
   \<and> buildAndSignTx demo_lib (demo_target 1000 1 [] False) = Inl NoFunds
   \<and> buildAndSignTx demo_lib (demo_target 100 1 [demo_utxo 1000] True) = Inl AmountBelowFee
   \<and> buildAndSignTx demo_lib (demo_target 1000 1 [demo_utxo 1000] False) = Inl InsufficientBalance"
proof -
  have 1: "amountSats (demo_target 0 1 [demo_utxo 1000] False) \<le> 0"
    by (simp add: demo_defs)
  have 2: "0 < amountSats (demo_target 1000 1 [] False) \<and> utxos (demo_target 1000 1 [] False) = []"
    by (simp add: demo_defs)
  have 3: "0 < amountSats (demo_target 100 1 [demo_utxo 1000] True)
        \<and> utxos (demo_target 100 1 [demo_utxo 1000] True) \<noteq> []
        \<and> p2wpkh_output demo_lib (keyPair (demo_target 100 1 [demo_utxo 1000] True))
             (networkType (demo_target 100 1 [demo_utxo 1000] True)) = Some ''0014''
        \<and> includeFee (demo_target 100 1 [demo_utxo 1000] True)
        \<and> amountSats (demo_target 100 1 [demo_utxo 1000] True)
            - finalFee (demo_target 100 1 [demo_utxo 1000] True) \<le> 0"
    by (simp add: demo_defs tx_defs Let_def)
  have 4: "0 < amountSats (demo_target 1000 1 [demo_utxo 1000] False)
        \<and> utxos (demo_target 1000 1 [demo_utxo 1000] False) \<noteq> []
        \<and> p2wpkh_output demo_lib (keyPair (demo_target 1000 1 [demo_utxo 1000] False))
             (networkType (demo_target 1000 1 [demo_utxo 1000] False)) = Some ''0014''
        \<and> \<not> (includeFee (demo_target 1000 1 [demo_utxo 1000] False)
              \<and> amountSats (demo_target 1000 1 [demo_utxo 1000] False)
                  - finalFee (demo_target 1000 1 [demo_utxo 1000] False) \<le> 0)
        \<and> addInputs_ok demo_lib ''0014'' (selectedUtxos (demo_target 1000 1 [demo_utxo 1000] False))
        \<and> sum_list (map value' (selectedUtxos (demo_target 1000 1 [demo_utxo 1000] False)))
             < (if includeFee (demo_target 1000 1 [demo_utxo 1000] False)
                then amountSats (demo_target 1000 1 [demo_utxo 1000] False)
                else amountSats (demo_target 1000 1 [demo_utxo 1000] False)
                       + finalFee (demo_target 1000 1 [demo_utxo 1000] False))"
    by (simp add: demo_defs tx_defs Let_def)
  have r1: "buildAndSignTx demo_lib (demo_target 0 1 [demo_utxo 1000] False) = Inl InvalidAmount"
    using C8_error_conditions [of "demo_target 0 1 [demo_utxo 1000] False" demo_lib,
        THEN conjunct1] 1 by simp
  have r2: "buildAndSignTx demo_lib (demo_target 1000 1 [] False) = Inl NoFunds"
    using C8_error_conditions [of "demo_target 1000 1 [] False" demo_lib,
        THEN conjunct2, THEN conjunct1] 2 by simp
  have r3: "buildAndSignTx demo_lib (demo_target 100 1 [demo_utxo 1000] True) = Inl AmountBelowFee"
    using C8_error_conditions [of "demo_target 100 1 [demo_utxo 1000] True" demo_lib "''0014''",
        THEN conjunct2, THEN conjunct2, THEN conjunct1] 3 by (rule mp)
  have r4: "buildAndSignTx demo_lib (demo_target 1000 1 [demo_utxo 1000] False)
              = Inl InsufficientBalance"
    using C8_error_conditions [of "demo_target 1000 1 [demo_utxo 1000] False" demo_lib "''0014''",
        THEN conjunct2, THEN conjunct2, THEN conjunct2, THEN conjunct1] 4 by (rule mp)
  from r1 r2 r3 r4 show ?thesis by simp
qed

section \<open>Properties of the codec\<close>

text \<open>
  C1. The compact target \<open>0x1d00ffff\<close> has exponent \<open>0x1d\<close> and mantissa \<open>0xffff\<close>, so
  the target is \<open>0xffff * 256^26\<close>; \<open>maxTarget\<close> is \<open>0xffff0000 * 256^26\<close>, and the
  function returns 65536 and not 1.
\<close>

theorem C1_difficulty_of_genesis_bits:
  "calculateDifficultyFromBits 0x1d00ffff = 65536"
  by (simp add: calculateDifficultyFromBits_def Let_def)

text \<open>
  C2. A block of two transactions, cut at the end of the first one or inside the version
  field of the second one, gives the hash of the first transaction; cut right after the
  version field of the second one, where \<open>readVarint\<close> throws, the same block gives the
  empty list. A block cut inside an input script gives a hash of the cut transaction,
  since the \<open>break\<close> there leaves the inner loop only.
\<close>

theorem C2_truncated_varint_loses_hashes:
  "parseTransactionHashesFromBlock H (genesis_header @ ''02'' @ sample_tx)
     = [hash256_hex H (from_hex sample_tx)]
   \<and> parseTransactionHashesFromBlock H (genesis_header @ ''02'' @ sample_tx @ ''010000'')
     = [hash256_hex H (from_hex sample_tx)]
   \<and> parseTransactionHashesFromBlock H truncated_block = []
   \<and> parseTransactionHashesFromBlock H block_cut_in_script = [hash256_hex H (from_hex cut_tx)]"
  by code_simp

lemma length_from_hex: "isHex s \<Longrightarrow> length (from_hex s) = length s div 2"
  by (induction s rule: from_hex.induct) (auto simp: isHex_def split: option.splits)

lemma take4_drop:
  "off + 4 \<le> length b \<Longrightarrow>
   take 4 (drop off b) = [b ! off, b ! (off + 1), b ! (off + 2), b ! (off + 3)]"
  by (auto simp: list_eq_iff_nth_eq nth_Cons numeral_3_eq_3 split: nat.splits)

lemma readUInt32LE_little_endian:
  "off + 4 \<le> length b \<Longrightarrow> readUInt32LE b off = little_endian (slice b off (off + 4))"
  by (simp add: slice_def take4_drop readUInt32LE_def)

lemma genesis_bytes:
  "from_hex genesis_header =
     [1, 0, 0, 0,
      0, 0, 0, 0, 0, 0, 0, 0, 0, 0, 0, 0, 0, 0, 0, 0, 0, 0, 0, 0, 0, 0, 0, 0, 0, 0, 0, 0, 0, 0, 0, 0,
      0x3b, 0xa3, 0xed, 0xfd, 0x7a, 0x7b, 0x12, 0xb2, 0x7a, 0xc7, 0x2c, 0x3e, 0x67, 0x76, 0x8f, 0x61,
      0x7f, 0xc8, 0x1b, 0xc3, 0x88, 0x8a, 0x51, 0x32, 0x3a, 0x9f, 0xb8, 0xaa, 0x4b, 0x1e, 0x5e, 0x4a,
      0x29, 0xab, 0x5f, 0x49, 0xff, 0xff, 0x00, 0x1d, 0x1d, 0xac, 0x2b, 0x7c]"
  by code_simp

lemma genesis_isHex: "isHex genesis_header"
  by code_simp

lemma genesis_length: "length genesis_header = 160"
  by code_simp

lemma genesis_nonempty: "genesis_header \<noteq> []"
  using genesis_length by auto

lemma genesis_parse:
  "parseBlockHeader demo_sha256 genesis_header =
     Inr \<lparr>hash = ''0000000000000000000000000000000000000000000000000000000000000001'',
          version = 1,
          prevHash = ''0000000000000000000000000000000000000000000000000000000000000000'',
          merkleRoot = ''4a5e1e4baab89f3a32518a88c31bc87f618f76673e2cc77ab2127b7afdeda33b'',
          timestamp = 1231006505, bits = 486604799, nonce = 2083236893\<rparr>"
  by (simp add: parseBlockHeader_def genesis_length genesis_nonempty genesis_bytes Let_def
      readUInt32LE_def slice_def to_hex_def hexdigit_def demo_sha256_def hash256_hex_def)

lemma long_header_bytes: "from_hex (genesis_header @ ''00'') = from_hex genesis_header @ [0]"
  by code_simp

lemma long_header_isHex: "isHex (genesis_header @ ''00'')"
  by code_simp

text \<open>
  C6 as stated fails: a hex string of 162 digits (81 bytes) is rejected with the
  invalid-length error.
\<close>

theorem C6_counterexample:
  "isHex (genesis_header @ ''00'') \<and> length (genesis_header @ ''00'') = 162
   \<and> parseBlockHeader demo_sha256 (genesis_header @ ''00'') = Inl (InvalidHeaderLength 81)"
  by (simp add: long_header_isHex genesis_length parseBlockHeader_def long_header_bytes
      genesis_bytes)

text \<open>
  C6, amended. On a string of hexadecimal digits, \<open>parseBlockHeader\<close> succeeds exactly
  when the string decodes to 80 bytes, that is when it has 160 or 161 digits (a trailing
  odd digit is dropped). It then returns version, timestamp, bits and nonce as the
  little-endian values of bytes 0-3, 68-71, 72-75 and 76-79, the previous hash and the
  merkle root as bytes 4-35 and 36-67 reversed, and the hash as the reversed double
  SHA-256 of the 80 bytes. Fewer than 160 digits give the invalid-hex error, 162 or more
  the invalid-length error. The result is a function of the string (and of SHA-256), so
  parsing the same string twice gives the same hash.
\<close>

theorem C6_parseBlockHeader:
  assumes "isHex hx"
  shows "(length hx < 160 \<longrightarrow> parseBlockHeader H hx = Inl InvalidHeaderHex)
       \<and> (162 \<le> length hx \<longrightarrow>
            parseBlockHeader H hx = Inl (InvalidHeaderLength (length hx div 2)))
       \<and> (length hx = 160 \<or> length hx = 161 \<longrightarrow>
            length (from_hex hx) = 80
            \<and> (\<exists>h. parseBlockHeader H hx = Inr h
                 \<and> version h = little_endian (slice (from_hex hx) 0 4)
                 \<and> prevHash h = to_hex (rev (slice (from_hex hx) 4 36))
                 \<and> merkleRoot h = to_hex (rev (slice (from_hex hx) 36 68))
                 \<and> timestamp h = little_endian (slice (from_hex hx) 68 72)
                 \<and> bits h = little_endian (slice (from_hex hx) 72 76)
                 \<and> nonce h = little_endian (slice (from_hex hx) 76 80)
                 \<and> hash h = to_hex (rev (H (H (from_hex hx))))))"
proof -
  have len: "length (from_hex hx) = length hx div 2"
    using assms by (rule length_from_hex)
  have short: "length hx < 160 \<longrightarrow> parseBlockHeader H hx = Inl InvalidHeaderHex"
    by (simp add: parseBlockHeader_def)
  have long: "162 \<le> length hx \<longrightarrow>
            parseBlockHeader H hx = Inl (InvalidHeaderLength (length hx div 2))"
  proof
    assume l: "162 \<le> length hx"
    then have "length hx div 2 \<noteq> 80" by arith
    moreover from l have "hx \<noteq> []" by auto
    ultimately show "parseBlockHeader H hx = Inl (InvalidHeaderLength (length hx div 2))"
      using l by (simp add: parseBlockHeader_def len Let_def)
  qed
  have ok: "length hx = 160 \<or> length hx = 161 \<longrightarrow>
            length (from_hex hx) = 80
            \<and> (\<exists>h. parseBlockHeader H hx = Inr h
                 \<and> version h = little_endian (slice (from_hex hx) 0 4)
                 \<and> prevHash h = to_hex (rev (slice (from_hex hx) 4 36))
                 \<and> merkleRoot h = to_hex (rev (slice (from_hex hx) 36 68))
                 \<and> timestamp h = little_endian (slice (from_hex hx) 68 72)
                 \<and> bits h = little_endian (slice (from_hex hx) 72 76)
                 \<and> nonce h = little_endian (slice (from_hex hx) 76 80)
                 \<and> hash h = to_hex (rev (H (H (from_hex hx)))))"
  proof
    assume l: "length hx = 160 \<or> length hx = 161"
    then have l80: "length (from_hex hx) = 80" using len by auto
    from l have ne: "hx \<noteq> []" "\<not> length hx < 160" by auto
    have r0: "readUInt32LE (from_hex hx) 0 = little_endian (slice (from_hex hx) 0 4)"
      using readUInt32LE_little_endian [of 0 "from_hex hx"] l80 by simp
    have r68: "readUInt32LE (from_hex hx) 68 = little_endian (slice (from_hex hx) 68 72)"
      using readUInt32LE_little_endian [of 68 "from_hex hx"] l80 by simp
    have r72: "readUInt32LE (from_hex hx) 72 = little_endian (slice (from_hex hx) 72 76)"
      using readUInt32LE_little_endian [of 72 "from_hex hx"] l80 by simp
    have r76: "readUInt32LE (from_hex hx) 76 = little_endian (slice (from_hex hx) 76 80)"
      using readUInt32LE_little_endian [of 76 "from_hex hx"] l80 by simp
    show "length (from_hex hx) = 80
            \<and> (\<exists>h. parseBlockHeader H hx = Inr h
                 \<and> version h = little_endian (slice (from_hex hx) 0 4)
                 \<and> prevHash h = to_hex (rev (slice (from_hex hx) 4 36))
                 \<and> merkleRoot h = to_hex (rev (slice (from_hex hx) 36 68))
                 \<and> timestamp h = little_endian (slice (from_hex hx) 68 72)
                 \<and> bits h = little_endian (slice (from_hex hx) 72 76)
                 \<and> nonce h = little_endian (slice (from_hex hx) 76 80)
                 \<and> hash h = to_hex (rev (H (H (from_hex hx)))))"
      using l80 ne r0 r68 r72 r76
      by (simp add: parseBlockHeader_def Let_def hash256_hex_def)
  qed
  from short long ok show ?thesis by blast
qed

theorem C6_witness:
  "isHex genesis_header \<and> length genesis_header = 160
   \<and> length (from_hex genesis_header) = 80
   \<and> little_endian (slice (from_hex genesis_header) 0 4) = 1
   \<and> little_endian (slice (from_hex genesis_header) 68 72) = 1231006505
   \<and> little_endian (slice (from_hex genesis_header) 72 76) = 486604799
   \<and> little_endian (slice (from_hex genesis_header) 76 80) = 2083236893
   \<and> to_hex (rev (slice (from_hex genesis_header) 36 68))
       = ''4a5e1e4baab89f3a32518a88c31bc87f618f76673e2cc77ab2127b7afdeda33b''"
proof -
  have "length genesis_header = 160 \<or> length genesis_header = 161"
    by (simp add: genesis_length)
  with C6_parseBlockHeader [OF genesis_isHex, of demo_sha256]
  have l: "length (from_hex genesis_header) = 80"
    and "\<exists>h. parseBlockHeader demo_sha256 genesis_header = Inr h
           \<and> version h = little_endian (slice (from_hex genesis_header) 0 4)
           \<and> prevHash h = to_hex (rev (slice (from_hex genesis_header) 4 36))
           \<and> merkleRoot h = to_hex (rev (slice (from_hex genesis_header) 36 68))
           \<and> timestamp h = little_endian (slice (from_hex genesis_header) 68 72)
           \<and> bits h = little_endian (slice (from_hex genesis_header) 72 76)
           \<and> nonce h = little_endian (slice (from_hex genesis_header) 76 80)
           \<and> hash h = to_hex (rev (demo_sha256 (demo_sha256 (from_hex genesis_header))))"
    by blast+
  then obtain h where h: "parseBlockHeader demo_sha256 genesis_header = Inr h"
    and f: "version h = little_endian (slice (from_hex genesis_header) 0 4)"
      "merkleRoot h = to_hex (rev (slice (from_hex genesis_header) 36 68))"
      "timestamp h = little_endian (slice (from_hex genesis_header) 68 72)"
      "bits h = little_endian (slice (from_hex genesis_header) 72 76)"
      "nonce h = little_endian (slice (from_hex genesis_header) 76 80)"
    by blast
  from h genesis_parse have
    "h = \<lparr>hash = ''0000000000000000000000000000000000000000000000000000000000000001'',
          version = 1,
          prevHash = ''0000000000000000000000000000000000000000000000000000000000000000'',
          merkleRoot = ''4a5e1e4baab89f3a32518a88c31bc87f618f76673e2cc77ab2127b7afdeda33b'',
          timestamp = 1231006505, bits = 486604799, nonce = 2083236893\<rparr>"
    by simp
  then have "version h = 1" "timestamp h = 1231006505" "bits h = 486604799"
    "nonce h = 2083236893"
    "merkleRoot h = ''4a5e1e4baab89f3a32518a88c31bc87f618f76673e2cc77ab2127b7afdeda33b''"
    by simp_all
  with f l genesis_isHex genesis_length show ?thesis by simp
qed

section \<open>Properties of the RPC client\<close>

lemma wfI:
  assumes "\<And>n k. pending c n = Some k \<Longrightarrow> n \<le> next_id c"
    and "\<And>n k. pending c n = Some k \<Longrightarrow> k < length (promises c)"
    and "\<And>n k. pending c n = Some k \<Longrightarrow> promises c ! k = Pending"
    and "\<And>n m k. pending c n = Some k \<Longrightarrow> pending c m = Some k \<Longrightarrow> m = n"
  shows "wf c"
  unfolding wf_def using assms by blast

lemma wfD:
  assumes "wf c" and "pending c n = Some k"
  shows "n \<le> next_id c" and "k < length (promises c)" and "promises c ! k = Pending"
    and "pending c m = Some k \<Longrightarrow> m = n"
  using assms unfolding wf_def by blast+

lemma wf_start: "wf connected_client"
  by (simp add: wf_def connected_client_def)

lemma wf_send:
  assumes "wf c"
  shows "wf (snd (send method params c))"
proof (cases "ws_open c")
  case False
  then have eq: "snd (send method params c)
      = c\<lparr>promises := promises c @ [Rejected ''Not connected to Electrum server'']\<rparr>"
    by (simp add: send_def Let_def)
  show ?thesis
    unfolding eq
  proof (rule wfI)
    fix n k assume "pending (c\<lparr>promises := promises c @ [Rejected ''Not connected to Electrum server'']\<rparr>) n = Some k"
    then have p: "pending c n = Some k" by simp
    show "n \<le> next_id (c\<lparr>promises := promises c @ [Rejected ''Not connected to Electrum server'']\<rparr>)"
      using wfD(1) [OF assms p] by simp
    show "k < length (promises (c\<lparr>promises := promises c @ [Rejected ''Not connected to Electrum server'']\<rparr>))"
      using wfD(2) [OF assms p] by simp
    show "promises (c\<lparr>promises := promises c @ [Rejected ''Not connected to Electrum server'']\<rparr>) ! k = Pending"
      using wfD(2,3) [OF assms p] by (simp add: nth_append)
  next
    fix n m k
    assume "pending (c\<lparr>promises := promises c @ [Rejected ''Not connected to Electrum server'']\<rparr>) n = Some k"
      and "pending (c\<lparr>promises := promises c @ [Rejected ''Not connected to Electrum server'']\<rparr>) m = Some k"
    then show "m = n" using wfD(4) [OF assms, of n k m] by simp
  qed
next
  case True
  define c' where "c' = snd (send method params c)"
  have nid: "next_id c' = next_id c + 1"
    and pr: "promises c' = promises c @ [Pending]"
    and pe: "pending c' = (pending c)(next_id c + 1 \<mapsto> length (promises c))"
    using True by (simp_all add: c'_def send_def Let_def)
  have "wf c'"
  proof (rule wfI)
    fix n k assume p: "pending c' n = Some k"
    show "n \<le> next_id c'"
      using p wfD(1) [OF assms, of n k] by (auto simp: pe nid split: if_splits)
    show "k < length (promises c')"
      using p wfD(2) [OF assms, of n k] by (auto simp: pe pr split: if_splits)
    show "promises c' ! k = Pending"
      using p wfD(2,3) [OF assms, of n k] by (auto simp: pe pr nth_append split: if_splits)
  next
    fix n m k assume p: "pending c' n = Some k" and q: "pending c' m = Some k"
    show "m = n"
    proof (cases "n = next_id c + 1")
      case True
      then have k: "k = length (promises c)" using p by (simp add: pe)
      show ?thesis
      proof (rule ccontr)
        assume "m \<noteq> n"
        then have "pending c m = Some k" using q True by (simp add: pe)
        then show False using wfD(2) [OF assms] k by blast
      qed
    next
      case False
      then have pn: "pending c n = Some k" using p by (simp add: pe)
      show ?thesis
      proof (cases "m = next_id c + 1")
        case True
        then have "k = length (promises c)" using q by (simp add: pe)
        then show ?thesis using wfD(2) [OF assms pn] by simp
      next
        case False
        then have "pending c m = Some k" using q by (simp add: pe)
        then show ?thesis using wfD(4) [OF assms pn] by simp
      qed
    qed
  qed
  then show ?thesis by (simp add: c'_def)
qed

lemma wf_subscriptions:
  "wf c \<Longrightarrow> wf (c\<lparr>subscriptions := s\<rparr>)"
  by (simp add: wf_def)

lemma wf_handled:
  "wf c \<Longrightarrow> wf (c\<lparr>handled := h\<rparr>)"
  by (simp add: wf_def)

lemma wf_subscribe: "wf c \<Longrightarrow> wf (snd (subscribeScripthash sh h c))"
  unfolding subscribeScripthash_def by (intro wf_send wf_subscriptions)

text \<open>Deleting a pending entry and settling its promise keeps the invariant.\<close>

lemma wf_delete_settle:
  assumes "wf c" and pk: "pending c n = Some k" and "out \<noteq> Pending"
  shows "wf (settle k out (c\<lparr>pending := (pending c)(n := None)\<rparr>))"
    and "promises (settle k out (c\<lparr>pending := (pending c)(n := None)\<rparr>)) = (promises c)[k := out]"
    and "pending (settle k out (c\<lparr>pending := (pending c)(n := None)\<rparr>)) = (pending c)(n := None)"
    and "handled (settle k out (c\<lparr>pending := (pending c)(n := None)\<rparr>)) = handled c"
proof -
  define c' where "c' = settle k out (c\<lparr>pending := (pending c)(n := None)\<rparr>)"
  have kl: "k < length (promises c)" and kp: "promises c ! k = Pending"
    using wfD(2,3) [OF assms(1) pk] by simp_all
  then have eq: "c' = c\<lparr>pending := (pending c)(n := None), promises := (promises c)[k := out]\<rparr>"
    by (simp add: c'_def settle_def)
  have "wf c'"
  proof (rule wfI)
    fix m j assume p: "pending c' m = Some j"
    then have mn: "m \<noteq> n" and pm: "pending c m = Some j"
      by (auto simp: eq split: if_splits)
    have jk: "j \<noteq> k" using wfD(4) [OF assms(1) pk, of m] pm mn by auto
    show "m \<le> next_id c'" using wfD(1) [OF assms(1) pm] by (simp add: eq)
    show "j < length (promises c')" using wfD(2) [OF assms(1) pm] by (simp add: eq)
    show "promises c' ! j = Pending" using wfD(3) [OF assms(1) pm] jk by (simp add: eq)
  next
    fix m m' j assume "pending c' m = Some j" and "pending c' m' = Some j"
    then have "pending c m = Some j" and "pending c m' = Some j"
      by (auto simp: eq split: if_splits)
    then show "m' = m" using wfD(4) [OF assms(1)] by blast
  qed
  then show "wf (settle k out (c\<lparr>pending := (pending c)(n := None)\<rparr>))"
    by (simp add: c'_def)
  show "promises (settle k out (c\<lparr>pending := (pending c)(n := None)\<rparr>)) = (promises c)[k := out]"
    using eq by (simp add: c'_def)
  show "pending (settle k out (c\<lparr>pending := (pending c)(n := None)\<rparr>)) = (pending c)(n := None)"
    using eq by (simp add: c'_def)
  show "handled (settle k out (c\<lparr>pending := (pending c)(n := None)\<rparr>)) = handled c"
    using eq by (simp add: c'_def)
qed

lemma outcome_not_Pending: "outcome msg \<noteq> Pending"
  by (simp add: outcome_def split: option.splits)

lemma onMessage_response:
  assumes "wf c" and "p_id msg = Some (IdNum n)" and "pending c n = Some k"
  shows "onMessage (Some msg) c = settle k (outcome msg) (c\<lparr>pending := (pending c)(n := None)\<rparr>)"
  using assms by (simp add: onMessage_def pending_lookup_def outcome_def Let_def split: option.splits)

lemma onMessage_other:
  assumes "pending_lookup c (p_id msg) = None"
  shows "onMessage (Some msg) c = c\<lparr>handled := handled c @ notified c msg\<rparr>"
  using assms by (simp add: onMessage_def notified_def split: option.splits)

lemma wf_onMessage: "wf c \<Longrightarrow> wf (onMessage ev c)"
proof (cases ev)
  case None
  assume "wf c" then show ?thesis using None by (simp add: onMessage_def)
next
  case (Some msg)
  assume w: "wf c"
  show ?thesis
  proof (cases "pending_lookup c (p_id msg)")
    case None
    then show ?thesis using w Some by (simp add: onMessage_other wf_handled)
  next
    case (Some nk)
    obtain n k where nk: "nk = (n, k)" by (cases nk)
    from Some nk have i: "p_id msg = Some (IdNum n)" and p: "pending c n = Some k"
      by (auto simp: pending_lookup_def split: option.splits jsid.splits)
    show ?thesis
      using wf_delete_settle(1) [OF w p outcome_not_Pending [of msg]]
        onMessage_response [OF w i p] \<open>ev = Some msg\<close> by simp
  qed
qed

lemma wf_timeout: "wf c \<Longrightarrow> wf (timeout_fires n c)"
  using wf_delete_settle(1) [of c n _ "Rejected ''Electrum request timed out''"]
  by (auto simp: timeout_fires_def split: option.splits)

lemma reachable_wf: "reachable c \<Longrightarrow> wf c"
  by (induction rule: reachable.induct)
    (simp_all add: wf_start wf_send wf_subscribe wf_onMessage wf_timeout)

lemma reachable_three_calls: "reachable three_calls"
  unfolding three_calls_def by (intro reachable.sends reachable.start)

lemma reachable_subscribed: "reachable subscribed_client"
  unfolding subscribed_client_def by (intro reachable.subscribes reachable.start)

lemmas rpc_defs = send_def onMessage_def settle_def pending_lookup_def connected_client_def
  truthy_method_def error_message_def three_calls_def subscribed_client_def
  subscribeScripthash_def response_def tagged_notification_def

text \<open>
  C4 as stated fails: a message that carries an id for which no call is pending, and has
  a method and params, is dispatched to the subscription handler of the method.
\<close>

theorem C4_counterexample:
  "p_id tagged_notification = Some (IdNum 7)
   \<and> pending subscribed_client 7 = None
   \<and> handled subscribed_client = []
   \<and> handled (onMessage (Some tagged_notification) subscribed_client) = [(0, ''status'')]
   \<and> promises (onMessage (Some tagged_notification) subscribed_client) = [Pending]"
  by (simp add: rpc_defs Let_def)

text \<open>
  C4, amended. In every state of a connected client: a message without an id changes
  neither the pending map nor any promise, and is passed to the handler registered for
  its method, if there is one (so to one handler at most); a message whose id is that of
  a pending call removes that id from the pending map and settles the promise of that
  call, which was pending, with the result or the error, and calls no handler; a message
  whose id is not that of a pending call is handled as a notification is. Three calls
  get the ids 1, 2, 3, and answers delivered in the order 3, 2, 1 resolve each call's own
  promise with its own result.
\<close>

theorem C4_routing:
  assumes "reachable c"
  shows "(p_id msg = None \<longrightarrow>
            pending (onMessage (Some msg) c) = pending c
            \<and> promises (onMessage (Some msg) c) = promises c
            \<and> handled (onMessage (Some msg) c) = handled c @ notified c msg
            \<and> length (notified c msg) \<le> 1)
       \<and> (p_id msg = Some (IdNum n) \<and> pending c n = Some k \<longrightarrow>
            pending (onMessage (Some msg) c) = (pending c)(n := None)
            \<and> handled (onMessage (Some msg) c) = handled c
            \<and> k < length (promises c) \<and> promises c ! k = Pending
            \<and> promises (onMessage (Some msg) c) = (promises c)[k := outcome msg])
       \<and> (pending_lookup c (p_id msg) = None \<longrightarrow>
            pending (onMessage (Some msg) c) = pending c
            \<and> promises (onMessage (Some msg) c) = promises c
            \<and> handled (onMessage (Some msg) c) = handled c @ notified c msg)
       \<and> sent three_calls = [(1, ''server.ping'', []), (2, ''blockchain.relayfee'', []),
                              (3, ''blockchain.transaction.get'', [''ab''])]
       \<and> promises three_calls = [Pending, Pending, Pending]
       \<and> promises (onMessage (response 1 r1) (onMessage (response 2 r2)
            (onMessage (response 3 r3) three_calls)))
          = [Resolved r1, Resolved r2, Resolved r3]"
proof -
  have w: "wf c" using assms by (rule reachable_wf)
  have other: "pending_lookup c (p_id msg) = None \<longrightarrow>
            pending (onMessage (Some msg) c) = pending c
            \<and> promises (onMessage (Some msg) c) = promises c
            \<and> handled (onMessage (Some msg) c) = handled c @ notified c msg"
    by (simp add: onMessage_other)
  have "p_id msg = None \<longrightarrow> pending_lookup c (p_id msg) = None"
    by (simp add: pending_lookup_def)
  moreover have "length (notified c msg) \<le> 1"
    by (simp add: notified_def split: option.splits)
  ultimately have noid: "p_id msg = None \<longrightarrow>
            pending (onMessage (Some msg) c) = pending c
            \<and> promises (onMessage (Some msg) c) = promises c
            \<and> handled (onMessage (Some msg) c) = handled c @ notified c msg
            \<and> length (notified c msg) \<le> 1"
    using other by blast
  have resp: "p_id msg = Some (IdNum n) \<and> pending c n = Some k \<longrightarrow>
            pending (onMessage (Some msg) c) = (pending c)(n := None)
            \<and> handled (onMessage (Some msg) c) = handled c
            \<and> k < length (promises c) \<and> promises c ! k = Pending
            \<and> promises (onMessage (Some msg) c) = (promises c)[k := outcome msg]"
  proof
    assume a: "p_id msg = Some (IdNum n) \<and> pending c n = Some k"
    then have i: "p_id msg = Some (IdNum n)" and p: "pending c n = Some k" by simp_all
    show "pending (onMessage (Some msg) c) = (pending c)(n := None)
            \<and> handled (onMessage (Some msg) c) = handled c
            \<and> k < length (promises c) \<and> promises c ! k = Pending
            \<and> promises (onMessage (Some msg) c) = (promises c)[k := outcome msg]"
      using wf_delete_settle(2,3,4) [OF w p outcome_not_Pending [of msg]]
        onMessage_response [OF w i p] wfD(2,3) [OF w p]
      by simp
  qed
  have s1: "sent three_calls = [(1, ''server.ping'', []), (2, ''blockchain.relayfee'', []),
                              (3, ''blockchain.transaction.get'', [''ab''])]"
    by (simp add: rpc_defs Let_def)
  have s2: "promises three_calls = [Pending, Pending, Pending]"
    by (simp add: rpc_defs Let_def)
  have s3: "promises (onMessage (response 1 r1) (onMessage (response 2 r2)
            (onMessage (response 3 r3) three_calls)))
          = [Resolved r1, Resolved r2, Resolved r3]"
    by (simp add: rpc_defs Let_def)
  from noid resp other s1 s2 s3 show ?thesis by blast
qed

theorem C4_witness:
  "reachable three_calls
   \<and> pending three_calls 3 = Some 2
   \<and> promises (onMessage (response 3 ''r3'') three_calls) = [Pending, Pending, Resolved ''r3'']
   \<and> pending (onMessage (response 3 ''r3'') three_calls) 3 = None
   \<and> handled (onMessage (response 3 ''r3'') three_calls) = []"
proof -
  have p: "pending three_calls 3 = Some 2"
    by (simp add: rpc_defs Let_def)
  have h: "handled three_calls = []" and pr: "promises three_calls = [Pending, Pending, Pending]"
    by (simp_all add: rpc_defs Let_def)
  have r: "response 3 ''r3'' = Some \<lparr>p_id = Some (IdNum 3), p_method = None, p_params = None,
             p_error = None, p_result = ''r3''\<rparr>"
    by (simp add: response_def)
  have "p_id \<lparr>p_id = Some (IdNum 3), p_method = None, p_params = None,
             p_error = None, p_result = ''r3''\<rparr> = Some (IdNum 3) \<and> pending three_calls 3 = Some 2"
    using p by simp
  with C4_routing [OF reachable_three_calls,
      of "\<lparr>p_id = Some (IdNum 3), p_method = None, p_params = None,
             p_error = None, p_result = ''r3''\<rparr>" 3 2]
  have "pending (onMessage (response 3 ''r3'') three_calls) = (pending three_calls)(3 := None)
      \<and> handled (onMessage (response 3 ''r3'') three_calls) = handled three_calls
      \<and> promises (onMessage (response 3 ''r3'') three_calls)
          = (promises three_calls)[2 := outcome \<lparr>p_id = Some (IdNum 3), p_method = None,
               p_params = None, p_error = None, p_result = ''r3''\<rparr>]"
    unfolding r by blast
  then show ?thesis
    using p h pr reachable_three_calls by (simp add: outcome_def)
qed

section \<open>Properties of the unlock lockout\<close>

lemmas lock_defs = unlockWallet_def lockout_active_def MAX_UNLOCK_ATTEMPTS_def LOCKOUT_DURATION_def
  fresh_session_def rejects_def accepts_def failed_unlock_def after_five_failures_def
  restore_lockout_def

lemma five_failures_state: "after_five_failures =
  fresh_session\<lparr>unlockAttempts := 5, lockoutUntil := Some 905000, stored_attempts := Some 5,
     stored_lockout := Some 905000, verifications := 5\<rparr>"
  by (simp add: lock_defs Let_def)

text \<open>
  While a lockout is active the call is rejected and the state, with its count of
  password verifications, is left as it was.
\<close>

lemma locked_out_no_verification:
  "lockout_active (lockoutUntil s) now \<Longrightarrow>
   unlockWallet verify restore now now' password s = (Some LockedOut, s)"
  by (simp add: unlockWallet_def)

text \<open>
  A failed unlock counts one attempt; the attempt that reaches five sets a lockout of
  fifteen minutes; a successful unlock clears the counter and the lockout.
\<close>

lemma failure_counts:
  assumes "\<not> lockout_active (lockoutUntil s) now" "has_encrypted_data s" "has_password_hash s"
    "hash_well_formed s" "\<not> verify password"
  shows "unlockAttempts (snd (unlockWallet verify restore now now' password s)) = unlockAttempts s + 1"
    and "unlockAttempts s + 1 \<ge> 5 \<Longrightarrow>
         unlockWallet verify restore now now' password s
          = (Some TooManyAttempts,
             s\<lparr>verifications := verifications s + 1, unlockAttempts := unlockAttempts s + 1,
               stored_attempts := Some (unlockAttempts s + 1),
               lockoutUntil := Some (now' + 900000), stored_lockout := Some (now' + 900000)\<rparr>)"
    and "unlockAttempts s + 1 < 5 \<Longrightarrow>
         fst (unlockWallet verify restore now now' password s)
           = Some (InvalidPassword (5 - (unlockAttempts s + 1)))
         \<and> lockoutUntil (snd (unlockWallet verify restore now now' password s)) = lockoutUntil s"
  using assms by (simp_all add: unlockWallet_def Let_def MAX_UNLOCK_ATTEMPTS_def LOCKOUT_DURATION_def)

lemma success_resets:
  assumes "\<not> lockout_active (lockoutUntil s) now" "has_encrypted_data s" "has_password_hash s"
    "hash_well_formed s" "verify password"
  shows "unlockAttempts (snd (unlockWallet verify restore now now' password s)) = 0"
    and "lockoutUntil (snd (unlockWallet verify restore now now' password s)) = None"
    and "stored_attempts (snd (unlockWallet verify restore now now' password s)) = None"
    and "stored_lockout (snd (unlockWallet verify restore now now' password s)) = None"
  using assms by (simp_all add: unlockWallet_def Let_def)

text \<open>
  C5. Five failed unlocks, the last at time 5000, leave the counter at 5 and a lockout
  until 905000. Before that time an unlock is rejected without a password
  verification, and a correct password at 905000 clears the counter and the lockout.
  But the expiry alone does not reset the counter in \<open>unlockWallet\<close>: a wrong password
  at 905000 is the sixth attempt and sets a new lockout at once. Only the mount effect
  resets the counter when it finds the lockout expired.
\<close>

theorem C5_attempts_not_reset_after_expiry:
  "unlockAttempts after_five_failures = 5
   \<and> lockoutUntil after_five_failures = Some (5000 + LOCKOUT_DURATION)
   \<and> unlockWallet accepts accepts 904999 904999 ''secret'' after_five_failures
       = (Some LockedOut, after_five_failures)
   \<and> unlockAttempts (snd (unlockWallet accepts accepts 905000 905000 ''secret''
        after_five_failures)) = 0
   \<and> lockoutUntil (snd (unlockWallet accepts accepts 905000 905000 ''secret''
        after_five_failures)) = None
   \<and> fst (unlockWallet rejects accepts 905000 905000 ''wrong'' after_five_failures)
       = Some TooManyAttempts
   \<and> unlockAttempts (snd (unlockWallet rejects accepts 905000 905000 ''wrong''
        after_five_failures)) = 6
   \<and> lockoutUntil (snd (unlockWallet rejects accepts 905000 905000 ''wrong''
        after_five_failures)) = Some (905000 + LOCKOUT_DURATION)
   \<and> unlockAttempts (restore_lockout 905000 after_five_failures) = 0
   \<and> lockoutUntil (restore_lockout 905000 after_five_failures) = None"
  by (simp add: five_failures_state) (simp add: lock_defs Let_def)

end
